theory Spec2Isabelle
  imports Main "HOL-Library.Sublist" "HOL-Library.Multiset"
begin

section \<open>Python values, exceptions and effects\<close>

text \<open>
  The module \<^verbatim>\<open>webviz_config/_deployment/azure_cli.py\<close> is a sequence of calls to the
  Azure SDK, the Microsoft Graph REST API and a few standard-library services. Every
  function of it is embedded as a state transformer that returns either the exception
  it raises (\<open>Inl\<close>) or its value (\<open>Inr\<close>), together with the state of the outside
  world and the list of effects it has performed so far.

  Values that cross the REST boundary are JSON documents. A JSON object is what Python
  parses into a \<^verbatim>\<open>dict\<close>: an association list read with \<open>map_of\<close> (the first binding
  of a key counts). Numbers are integers; no path of the module looks at a fraction.
\<close>

datatype json =
    JNull
  | JBool bool
  | JNum int
  | JStr string
  | JArr "json list"
  | JObj "(string \<times> json) list"

text \<open>
  An exception carries the names of its class and of the classes it inherits from (the
  method resolution order), its message (\<^verbatim>\<open>str(exc)\<close>) and the cause given by
  \<^verbatim>\<open>raise ... from exc\<close>.
\<close>

datatype exn = Exn (exn_classes: "string list") (exn_msg: string) (exn_cause: "exn option")

definition isinstance_of :: "exn \<Rightarrow> string \<Rightarrow> bool" where
  "isinstance_of e c = (c \<in> set (exn_classes e))"

definition NameError :: "string \<Rightarrow> exn" where
  "NameError x =
     Exn [''NameError'', ''Exception'', ''BaseException'']
         (''name '' @ [CHR 0x27] @ x @ [CHR 0x27] @ '' is not defined'') None"

definition KeyError :: "string \<Rightarrow> exn" where
  "KeyError k = Exn [''KeyError'', ''LookupError'', ''Exception'', ''BaseException''] k None"

definition IndexError :: exn where
  "IndexError =
     Exn [''IndexError'', ''LookupError'', ''Exception'', ''BaseException'']
         ''index out of range'' None"

definition TypeError :: "string \<Rightarrow> exn" where
  "TypeError m = Exn [''TypeError'', ''Exception'', ''BaseException''] m None"

definition AttributeError :: "string \<Rightarrow> exn" where
  "AttributeError m = Exn [''AttributeError'', ''Exception'', ''BaseException''] m None"

definition ValueError :: "string \<Rightarrow> exn" where
  "ValueError m = Exn [''ValueError'', ''Exception'', ''BaseException''] m None"

definition StopIteration :: exn where
  "StopIteration = Exn [''StopIteration'', ''Exception'', ''BaseException''] [] None"

definition RuntimeError :: "string \<Rightarrow> exn option \<Rightarrow> exn" where
  "RuntimeError m c = Exn [''RuntimeError'', ''Exception'', ''BaseException''] m c"

definition PermissionError :: "string \<Rightarrow> exn" where
  "PermissionError m =
     Exn [''PermissionError'', ''OSError'', ''Exception'', ''BaseException''] m None"

definition ModuleNotFoundError :: "string \<Rightarrow> exn" where
  "ModuleNotFoundError m =
     Exn [''ModuleNotFoundError'', ''ImportError'', ''Exception'', ''BaseException'']
         (''No module named '' @ [CHR 0x27] @ m @ [CHR 0x27]) None"

subsection \<open>Operations on parsed JSON\<close>

text \<open>Python's truth value of a parsed JSON document (\<^verbatim>\<open>if data["value"]:\<close>).\<close>

fun truthy :: "json \<Rightarrow> bool" where
  "truthy JNull = False"
| "truthy (JBool b) = b"
| "truthy (JNum n) = (n \<noteq> 0)"
| "truthy (JStr s) = (s \<noteq> [])"
| "truthy (JArr xs) = (xs \<noteq> [])"
| "truthy (JObj kvs) = (kvs \<noteq> [])"

text \<open>\<^verbatim>\<open>v[k]\<close> for a string \<open>k\<close>: only a dict can be subscripted by a string.\<close>

fun getitem_key :: "json \<Rightarrow> string \<Rightarrow> exn + json" where
  "getitem_key (JObj kvs) k = (case map_of kvs k of None \<Rightarrow> Inl (KeyError k) | Some v \<Rightarrow> Inr v)"
| "getitem_key JNull k = Inl (TypeError ''object is not subscriptable'')"
| "getitem_key (JBool b) k = Inl (TypeError ''object is not subscriptable'')"
| "getitem_key (JNum n) k = Inl (TypeError ''object is not subscriptable'')"
| "getitem_key (JStr s) k = Inl (TypeError ''string indices must be integers'')"
| "getitem_key (JArr xs) k = Inl (TypeError ''list indices must be integers or slices'')"

text \<open>
  \<^verbatim>\<open>v[0]\<close>: the first element of a list, the first character of a string (a string
  again), a key error on a dict (the keys of a parsed JSON object are strings).
\<close>

fun getitem0 :: "json \<Rightarrow> exn + json" where
  "getitem0 (JArr []) = Inl IndexError"
| "getitem0 (JArr (x # xs)) = Inr x"
| "getitem0 (JStr []) = Inl IndexError"
| "getitem0 (JStr (c # cs)) = Inr (JStr [c])"
| "getitem0 (JObj kvs) = Inl (KeyError ''0'')"
| "getitem0 JNull = Inl (TypeError ''object is not subscriptable'')"
| "getitem0 (JBool b) = Inl (TypeError ''object is not subscriptable'')"
| "getitem0 (JNum n) = Inl (TypeError ''object is not subscriptable'')"

text \<open>\<^verbatim>\<open>sub in s\<close> on strings: \<open>sub\<close> occurs in \<open>s\<close> as a contiguous block.\<close>

fun has_substring :: "string \<Rightarrow> string \<Rightarrow> bool" where
  "has_substring sub [] = (sub = [])"
| "has_substring sub (c # cs) = (prefix sub (c # cs) \<or> has_substring sub cs)"

text \<open>
  \<^verbatim>\<open>k in v\<close> for a string \<open>k\<close>: a key of a dict, an element of a list (only a string
  equals a string), a substring of a string; the other values are not iterable.
\<close>

fun contains_str :: "json \<Rightarrow> string \<Rightarrow> exn + bool" where
  "contains_str (JObj kvs) k = Inr (k \<in> set (map fst kvs))"
| "contains_str (JArr xs) k = Inr (JStr k \<in> set xs)"
| "contains_str (JStr s) k = Inr (has_substring k s)"
| "contains_str JNull k = Inl (TypeError ''argument is not iterable'')"
| "contains_str (JBool b) k = Inl (TypeError ''argument is not iterable'')"
| "contains_str (JNum n) k = Inl (TypeError ''argument is not iterable'')"

subsection \<open>Effects and the outside world\<close>

datatype http_method = GET | POST | PATCH

text \<open>
  The effects a run performs, in the order it performs them. \<open>Print\<close>, \<open>Sleep\<close>,
  \<open>BrowserOpen\<close> and \<open>Warn\<close> are \<^verbatim>\<open>print\<close>, \<^verbatim>\<open>time.sleep\<close>, \<^verbatim>\<open>webbrowser.open\<close> and
  \<^verbatim>\<open>warnings.warn\<close>; they return nothing the module reads and are taken not to raise.
  The others are requests to the outside world, whose answers the world decides.
\<close>

datatype event =
    Print string
  | Sleep nat
  | BrowserOpen string
  | Warn string
  | AzCli "json list"
  | GetToken string
  | Http http_method string "json option"
  | SubscriptionsList
  | AccountsListByResourceGroup string string
  | AccountsList string
  | BlobContainersList string string string
  | ListKeys string json string
  | CreateContainer string string
  | OpenFile "string list"
  | UploadBlob string string string "string list"
  | ImportModule string
  | Now
  | TokenUrlsafe nat

text \<open>
  The outside world is a state \<open>'w\<close> and one answer function per kind of request;
  each answer is an exception or a value, with the next state. Nothing is assumed about
  the answers: a theorem for all worlds holds whatever Azure does.

  \<^item> \<open>ext_global\<close>: the value of a global name that something other than the module's
    text has bound (the module reads a few names it never binds);
  \<^item> \<open>ext_render\<close>: \<^verbatim>\<open>str(v)\<close> of a value that is not a string, inside an f-string;
  \<^item> \<open>ext_importable\<close>: whether a module imported inside a function body is installed;
  \<^item> \<open>ext_az_cli\<close>: what \<^verbatim>\<open>_azure_cli(args)\<close> would return, were that name bound;
  \<^item> \<open>ext_get_token\<close>: \<^verbatim>\<open>AzureCliCredential().get_token(scope).token\<close>;
  \<^item> \<open>ext_http\<close>: \<^verbatim>\<open>requests.get/post/patch(url, json=body, headers=...)\<close> with the
    bearer token, followed by \<^verbatim>\<open>.json()\<close> where the module parses the response;
  \<^item> \<open>ext_subscriptions\<close>: \<^verbatim>\<open>SubscriptionClient(...).subscriptions.list()\<close>, as pairs
    (display name, subscription id);
  \<^item> \<open>ext_accounts_in_group\<close>, \<open>ext_accounts\<close>, \<open>ext_containers\<close>: the names listed by
    \<^verbatim>\<open>storage_accounts.list_by_resource_group\<close>, \<^verbatim>\<open>storage_accounts.list\<close> and
    \<^verbatim>\<open>blob_containers.list\<close>;
  \<^item> \<open>ext_list_keys\<close>: the key values of \<^verbatim>\<open>storage_accounts.list_keys(...).keys\<close>;
  \<^item> \<open>ext_create_container\<close>: \<^verbatim>\<open>create_container()\<close> on a connection string and a
    container name;
  \<^item> \<open>ext_open_file\<close>: \<^verbatim>\<open>open(path, "rb")\<close> of a local file;
  \<^item> \<open>ext_upload_blob\<close>: \<^verbatim>\<open>upload_blob(name, data, overwrite=True)\<close> on a connection
    string and a container name, the data being the content of the file at a path;
  \<^item> \<open>ext_now\<close>: the clock, \<^verbatim>\<open>datetime.datetime.now()\<close>: an instant in microseconds
    since 0001-01-01T00:00:00, the resolution and origin of Python's \<^verbatim>\<open>datetime\<close>;
  \<^item> \<open>ext_token_urlsafe\<close>: \<^verbatim>\<open>secrets.token_urlsafe(nbytes)\<close>.
\<close>

record 'w world =
  ext_global :: "string \<Rightarrow> json"
  ext_render :: "json \<Rightarrow> string"
  ext_importable :: "string \<Rightarrow> bool"
  ext_az_cli :: "json list \<Rightarrow> 'w \<Rightarrow> (exn + json) \<times> 'w"
  ext_get_token :: "string \<Rightarrow> 'w \<Rightarrow> (exn + string) \<times> 'w"
  ext_http :: "http_method \<Rightarrow> string \<Rightarrow> string \<Rightarrow> json option \<Rightarrow> 'w \<Rightarrow> (exn + json) \<times> 'w"
  ext_subscriptions :: "'w \<Rightarrow> (exn + (string \<times> string) list) \<times> 'w"
  ext_accounts_in_group :: "string \<Rightarrow> string \<Rightarrow> 'w \<Rightarrow> (exn + string list) \<times> 'w"
  ext_accounts :: "string \<Rightarrow> 'w \<Rightarrow> (exn + string list) \<times> 'w"
  ext_containers :: "string \<Rightarrow> string \<Rightarrow> string \<Rightarrow> 'w \<Rightarrow> (exn + string list) \<times> 'w"
  ext_list_keys :: "string \<Rightarrow> json \<Rightarrow> string \<Rightarrow> 'w \<Rightarrow> (exn + string list) \<times> 'w"
  ext_create_container :: "string \<Rightarrow> string \<Rightarrow> 'w \<Rightarrow> (exn + unit) \<times> 'w"
  ext_open_file :: "string list \<Rightarrow> 'w \<Rightarrow> (exn + unit) \<times> 'w"
  ext_upload_blob :: "string \<Rightarrow> string \<Rightarrow> string \<Rightarrow> string list \<Rightarrow> 'w \<Rightarrow> (exn + unit) \<times> 'w"
  ext_now :: "'w \<Rightarrow> (exn + int) \<times> 'w"
  ext_token_urlsafe :: "nat \<Rightarrow> 'w \<Rightarrow> (exn + string) \<times> 'w"

text \<open>
  A run threads the world's state and the effects performed so far, and ends in an
  exception or a value.
\<close>

type_synonym 'w st = "'w \<times> event list"
type_synonym ('w, 'a) run = "'w st \<Rightarrow> (exn + 'a) \<times> 'w st"

definition ret :: "'a \<Rightarrow> ('w, 'a) run" where
  "ret a s = (Inr a, s)"

definition raise :: "exn \<Rightarrow> ('w, 'a) run" where
  "raise e s = (Inl e, s)"

definition lift :: "exn + 'a \<Rightarrow> ('w, 'a) run" where
  "lift r s = (r, s)"

definition bnd :: "('w, 'a) run \<Rightarrow> ('a \<Rightarrow> ('w, 'b) run) \<Rightarrow> ('w, 'b) run" where
  "bnd m f s = (case m s of (Inl e, s') \<Rightarrow> (Inl e, s') | (Inr a, s') \<Rightarrow> f a s')"

definition emit :: "event \<Rightarrow> ('w, unit) run" where
  "emit ev s = (Inr (), (fst s, snd s @ [ev]))"

definition ask :: "event \<Rightarrow> ('w \<Rightarrow> (exn + 'a) \<times> 'w) \<Rightarrow> ('w, 'a) run" where
  "ask ev f s = (case f (fst s) of (r, w') \<Rightarrow> (r, (w', snd s @ [ev])))"

text \<open>
  \<^verbatim>\<open>try: m  except ...: h\<close>: the handler \<open>h\<close> receives whatever \<open>m\<close> raised and decides
  itself whether it matches. \<^verbatim>\<open>try: m  finally: fin\<close>: \<open>fin\<close> runs however \<open>m\<close> ended,
  and an exception of \<open>fin\<close> replaces the outcome of \<open>m\<close>.
\<close>

definition try_except :: "('w, 'a) run \<Rightarrow> (exn \<Rightarrow> ('w, 'a) run) \<Rightarrow> ('w, 'a) run" where
  "try_except m h s = (case m s of (Inl e, s') \<Rightarrow> h e s' | (Inr a, s') \<Rightarrow> (Inr a, s'))"

definition try_finally :: "('w, 'a) run \<Rightarrow> ('w, unit) run \<Rightarrow> ('w, 'a) run" where
  "try_finally m fin s =
     (case m s of (r, s') \<Rightarrow>
        (case fin s' of (Inl e, s'') \<Rightarrow> (Inl e, s'') | (Inr u, s'') \<Rightarrow> (r, s'')))"

definition format_value :: "'w world \<Rightarrow> json \<Rightarrow> string" where
  "format_value W v = (case v of JStr s \<Rightarrow> s | _ \<Rightarrow> ext_render W v)"

subsection \<open>Global names\<close>

text \<open>
  Reading a global name looks it up in the module's globals, then in the builtins, and
  raises \<^verbatim>\<open>NameError\<close> when neither binds it. \<open>ns\<close> is the list of the names bound when
  the function runs. The embedding places a lookup wherever the module reads a name
  that its own text binds only conditionally (the SDK classes imported inside
  \<^verbatim>\<open>try: ... except ModuleNotFoundError\<close>) or not at all.
\<close>

definition load_global :: "string list \<Rightarrow> string \<Rightarrow> ('w, unit) run" where
  "load_global ns x = (if x \<in> set ns then ret () else raise (NameError x))"

text \<open>
  The five import statements of the guarded block, in order; each binds one name. When
  the \<open>k\<close>-th of them raises \<^verbatim>\<open>ModuleNotFoundError\<close> the names of the earlier ones stay
  bound and \<^verbatim>\<open>AZURE_CLI_INSTALLED\<close> is \<^verbatim>\<open>False\<close>.
\<close>

definition optional_imports :: "string list" where
  "optional_imports =
     [''AzureCliCredential'', ''SubscriptionClient'', ''ResourceManagementClient'',
      ''StorageManagementClient'', ''BlobServiceClient'']"

text \<open>
  The names the module's text binds at top level, after \<open>k\<close> of the guarded imports
  succeeded: the implicit module attributes, the imports, the constants and every
  \<^verbatim>\<open>def\<close>.
\<close>

definition module_globals :: "nat \<Rightarrow> string list" where
  "module_globals k =
     [''__name__'', ''__doc__'', ''__package__'', ''__loader__'', ''__spec__'',
      ''__file__'', ''__cached__'', ''__builtins__'',
      ''sys'', ''time'', ''secrets'', ''asyncio'', ''pathlib'', ''datetime'', ''warnings'',
      ''webbrowser'', ''subprocess'', ''List'', ''Dict'', ''Optional'', ''Tuple'',
      ''requests'']
     @ take k optional_imports
     @ [''AZURE_CLI_INSTALLED'', ''GRAPH_BASE_URL'', ''PIMCOMMON_URL'',
        ''logged_in'', ''log_in'', ''_credential'', ''_subscription_id'',
        ''_connection_string'', ''subscriptions'', ''resource_groups'',
        ''storage_account_name_available'', ''storage_account_exists'',
        ''storage_container_exists'', ''create_storage_account'',
        ''get_storage_account_access_key'', ''create_storage_container'',
        ''_upload_batch'', ''storage_container_upload_folder'', ''_graph_headers'',
        ''_object_id_from_app_id'', ''existing_app_registration'',
        ''create_app_registration'', ''create_secret'', ''add_reply_url'',
        ''create_service_principal'', ''azure_app_registration_setup'']"

text \<open>The names of Python's \<^verbatim>\<open>builtins\<close> module.\<close>

definition python_builtins :: "string list" where
  "python_builtins =
     [''ArithmeticError'', ''AssertionError'', ''AttributeError'', ''BaseException'',
      ''BaseExceptionGroup'', ''BlockingIOError'', ''BrokenPipeError'', ''BufferError'',
      ''BytesWarning'', ''ChildProcessError'', ''ConnectionAbortedError'',
      ''ConnectionError'', ''ConnectionRefusedError'', ''ConnectionResetError'',
      ''DeprecationWarning'', ''EOFError'', ''Ellipsis'', ''EncodingWarning'',
      ''EnvironmentError'', ''Exception'', ''ExceptionGroup'', ''False'',
      ''FileExistsError'', ''FileNotFoundError'', ''FloatingPointError'',
      ''FutureWarning'', ''GeneratorExit'', ''IOError'', ''ImportError'',
      ''ImportWarning'', ''IndentationError'', ''IndexError'', ''InterruptedError'',
      ''IsADirectoryError'', ''KeyError'', ''KeyboardInterrupt'', ''LookupError'',
      ''MemoryError'', ''ModuleNotFoundError'', ''NameError'', ''None'',
      ''NotADirectoryError'', ''NotImplemented'', ''NotImplementedError'', ''OSError'',
      ''OverflowError'', ''PendingDeprecationWarning'', ''PermissionError'',
      ''ProcessLookupError'', ''RecursionError'', ''ReferenceError'',
      ''ResourceWarning'', ''RuntimeError'', ''RuntimeWarning'', ''StopAsyncIteration'',
      ''StopIteration'', ''SyntaxError'', ''SyntaxWarning'', ''SystemError'',
      ''SystemExit'', ''TabError'', ''TimeoutError'', ''True'', ''TypeError'',
      ''UnboundLocalError'', ''UnicodeDecodeError'', ''UnicodeEncodeError'',
      ''UnicodeError'', ''UnicodeTranslateError'', ''UnicodeWarning'', ''UserWarning'',
      ''ValueError'', ''Warning'', ''ZeroDivisionError'', ''__build_class__'',
      ''__debug__'', ''__doc__'', ''__import__'', ''__loader__'', ''__name__'',
      ''__package__'', ''__spec__'', ''abs'', ''aiter'', ''all'', ''anext'', ''any'',
      ''ascii'', ''bin'', ''bool'', ''breakpoint'', ''bytearray'', ''bytes'',
      ''callable'', ''chr'', ''classmethod'', ''compile'', ''complex'', ''copyright'',
      ''credits'', ''delattr'', ''dict'', ''dir'', ''divmod'', ''enumerate'', ''eval'',
      ''exec'', ''exit'', ''filter'', ''float'', ''format'', ''frozenset'', ''getattr'',
      ''globals'', ''hasattr'', ''hash'', ''help'', ''hex'', ''id'', ''input'', ''int'',
      ''isinstance'', ''issubclass'', ''iter'', ''len'', ''license'', ''list'',
      ''locals'', ''map'', ''max'', ''memoryview'', ''min'', ''next'', ''object'',
      ''oct'', ''open'', ''ord'', ''pow'', ''print'', ''property'', ''quit'', ''range'',
      ''repr'', ''reversed'', ''round'', ''set'', ''setattr'', ''slice'', ''sorted'',
      ''staticmethod'', ''str'', ''sum'', ''super'', ''tuple'', ''type'', ''vars'',
      ''zip'']"

text \<open>
  The names bound when a function of the module runs and nothing but the module's own
  text has written to its globals.
\<close>

definition module_namespace :: "nat \<Rightarrow> string list" where
  "module_namespace k = module_globals k @ python_builtins"

text \<open>The module's string constants.\<close>

definition GRAPH_BASE_URL :: string where
  "GRAPH_BASE_URL = ''https://graph.microsoft.com''"

definition PIMCOMMON_URL :: string where
  "PIMCOMMON_URL = ''https://portal.azure.com/#blade/Microsoft_Azure_PIMCommon/ActivationMenuBlade''"


section \<open>Subscriptions, storage accounts and containers\<close>

text \<open>\<^verbatim>\<open>_credential()\<close>: constructs \<^verbatim>\<open>AzureCliCredential()\<close>; no request is sent yet.\<close>

definition credential :: "string list \<Rightarrow> ('w, unit) run" where
  "credential ns = load_global ns ''AzureCliCredential''"

text \<open>
  \<^verbatim>\<open>_subscription_id(subscription_name)\<close>: the id of the first listed subscription when
  the name is \<^verbatim>\<open>None\<close>, else of the first one with that display name.
\<close>

definition subscription_id :: "string list \<Rightarrow> 'w world \<Rightarrow> json \<Rightarrow> ('w, string) run" where
  "subscription_id ns W subscription_name =
     bnd (load_global ns ''SubscriptionClient'') (\<lambda>_.
     bnd (credential ns) (\<lambda>_.
     bnd (ask SubscriptionsList (ext_subscriptions W)) (\<lambda>subscription_list.
       if subscription_name = JNull then
         (case subscription_list of
            [] \<Rightarrow> raise StopIteration
          | sub # rest \<Rightarrow> ret (snd sub))
       else
         (case find (\<lambda>sub. JStr (fst sub) = subscription_name) subscription_list of
            Some sub \<Rightarrow> ret (snd sub)
          | None \<Rightarrow>
              raise (ValueError (''Could not find a subscription with name ''
                                 @ format_value W subscription_name))))))"

definition get_storage_account_access_key ::
  "string list \<Rightarrow> 'w world \<Rightarrow> json \<Rightarrow> json \<Rightarrow> string \<Rightarrow> ('w, string) run" where
  "get_storage_account_access_key ns W subscription resource_group account_name =
     bnd (load_global ns ''StorageManagementClient'') (\<lambda>_.
     bnd (credential ns) (\<lambda>_.
     bnd (subscription_id ns W subscription) (\<lambda>sid.
     bnd (ask (ListKeys sid resource_group account_name)
              (ext_list_keys W sid resource_group account_name)) (\<lambda>keys.
       case keys of [] \<Rightarrow> raise IndexError | k # rest \<Rightarrow> ret k))))"

definition connection_string ::
  "string list \<Rightarrow> 'w world \<Rightarrow> json \<Rightarrow> json \<Rightarrow> string \<Rightarrow> ('w, string) run" where
  "connection_string ns W subscription resource_group storage_account =
     bnd (get_storage_account_access_key ns W subscription resource_group storage_account)
       (\<lambda>k. ret (''DefaultEndpointsProtocol=https;AccountName='' @ storage_account
                   @ '';AccountKey='' @ k))"

text \<open>
  \<^verbatim>\<open>storage_account_exists\<close>. The warning of the second branch formats
  \<^verbatim>\<open>account['resourceGroup']\<close>: \<^verbatim>\<open>account\<close> is the variable of the generator
  expression inside \<^verbatim>\<open>any(...)\<close>, which has a scope of its own, so in the function body
  the name is a global read. The f-string is an argument of \<^verbatim>\<open>warnings.warn\<close> and is
  evaluated before the call.
\<close>

definition storage_account_exists ::
  "string list \<Rightarrow> 'w world \<Rightarrow> string \<Rightarrow> string \<Rightarrow> string \<Rightarrow> ('w, bool) run" where
  "storage_account_exists ns W name subscription resource_group =
     bnd (load_global ns ''StorageManagementClient'') (\<lambda>_.
     bnd (credential ns) (\<lambda>_.
     bnd (subscription_id ns W (JStr subscription)) (\<lambda>sid.
     bnd (ask (AccountsListByResourceGroup sid resource_group)
              (ext_accounts_in_group W sid resource_group)) (\<lambda>in_group.
       if name \<in> set in_group then ret True
       else
         bnd (ask (AccountsList sid) (ext_accounts W sid)) (\<lambda>accounts.
           if name \<in> set accounts then
             bnd (load_global ns ''account'') (\<lambda>_.
             bnd (lift (getitem_key (ext_global W ''account'') ''resourceGroup'')) (\<lambda>rg.
             bnd (emit (Warn (''Storage account with name '' @ name
                              @ '' found, but it belongs to another resource group (''
                              @ format_value W rg @ ''.''))) (\<lambda>_.
               ret True)))
           else ret False)))))"

definition storage_container_exists ::
  "string list \<Rightarrow> 'w world \<Rightarrow> string \<Rightarrow> string \<Rightarrow> string \<Rightarrow> string \<Rightarrow> ('w, bool) run" where
  "storage_container_exists ns W container_name account_name subscription resource_group =
     bnd (load_global ns ''StorageManagementClient'') (\<lambda>_.
     bnd (credential ns) (\<lambda>_.
     bnd (subscription_id ns W (JStr subscription)) (\<lambda>sid.
     bnd (ask (BlobContainersList sid resource_group account_name)
              (ext_containers W sid resource_group account_name)) (\<lambda>containers.
       ret (container_name \<in> set containers)))))"

definition create_storage_container ::
  "string list \<Rightarrow> 'w world \<Rightarrow> string \<Rightarrow> string \<Rightarrow> string \<Rightarrow> string \<Rightarrow> ('w, unit) run" where
  "create_storage_container ns W subscription resource_group storage_account container =
     bnd (load_global ns ''BlobServiceClient'') (\<lambda>_.
     bnd (connection_string ns W (JStr subscription) (JStr resource_group) storage_account)
       (\<lambda>conn.
     ask (CreateContainer conn container) (ext_create_container W conn container)))"

subsection \<open>Unbounded loops\<close>

text \<open>
  \<^verbatim>\<open>while True:\<close> with a body that either leaves the loop with a value (\<open>Inl\<close>, the
  \<^verbatim>\<open>break\<close>) or goes round again with new values of the loop's local variables
  (\<open>Inr\<close>). The loop may run forever, so the embedding counts iterations: with \<open>n\<close>
  iterations allowed, \<open>None\<close> says that the loop is still running after \<open>n\<close> of them,
  and the state holds the effects performed up to there.
\<close>

fun while_true ::
  "nat \<Rightarrow> ('v \<Rightarrow> ('w, 'a + 'v) run) \<Rightarrow> 'v \<Rightarrow> 'w st \<Rightarrow> (exn + 'a) option \<times> 'w st" where
  "while_true 0 body v s = (None, s)"
| "while_true (Suc n) body v s =
     (case body v s of
        (Inl e, s') \<Rightarrow> (Some (Inl e), s')
      | (Inr (Inl a), s') \<Rightarrow> (Some (Inr a), s')
      | (Inr (Inr v'), s') \<Rightarrow> while_true n body v' s')"

text \<open>The statements after a loop run once the loop has been left normally.\<close>

definition and_then ::
  "(exn + 'a) option \<times> 'w st \<Rightarrow> ('a \<Rightarrow> ('w, 'b) run) \<Rightarrow> (exn + 'b) option \<times> 'w st" where
  "and_then r f =
     (case r of
        (None, s) \<Rightarrow> (None, s)
      | (Some (Inl e), s) \<Rightarrow> (Some (Inl e), s)
      | (Some (Inr a), s) \<Rightarrow> (case f a s of (r', s') \<Rightarrow> (Some r', s')))"

subsection \<open>\<^verbatim>\<open>create_storage_account\<close>\<close>

definition azure_cli :: "string list \<Rightarrow> 'w world \<Rightarrow> json list \<Rightarrow> ('w, json) run" where
  "azure_cli ns W args =
     bnd (load_global ns ''_azure_cli'') (\<lambda>_. ask (AzCli args) (ext_az_cli W args))"

definition account_create_args :: "string \<Rightarrow> string \<Rightarrow> string \<Rightarrow> json list" where
  "account_create_args subscription resource_group name =
     map JStr
       [''storage'', ''account'', ''create'', ''--subscription'', subscription,
        ''--resource-group'', resource_group, ''--name'', name,
        ''--location'', ''northeurope'', ''--sku'', ''Standard_ZRS'',
        ''--encryption-services'', ''blob'']"

definition pim_notice_storage :: string where
  "pim_notice_storage =
     ''Not able to create new storage account. Do you have enough priviliges to do it? ''
     @ ''We automatically opened the URL to where you activate Azure PIM. Please activate ''
     @ ''necessary priviliges. You need to be 'Owner' of the subscription in order to both ''
     @ ''create the new account and assign user roles to it afterwards.''"

text \<open>
  One iteration of the loop; \<open>opened\<close> is \<^verbatim>\<open>azure_pim_already_open\<close>. The handler
  first evaluates the tuple \<^verbatim>\<open>(HttpResponseError, CloudError)\<close>, two global reads, and
  then matches the exception against it.
\<close>

definition create_account_iteration ::
  "string list \<Rightarrow> 'w world \<Rightarrow> json list \<Rightarrow> bool \<Rightarrow> ('w, unit + bool) run" where
  "create_account_iteration ns W args opened =
     try_except
       (bnd (azure_cli ns W args) (\<lambda>_. ret (Inl ())))
       (\<lambda>exc.
          bnd (load_global ns ''HttpResponseError'') (\<lambda>_.
          bnd (load_global ns ''CloudError'') (\<lambda>_.
            if isinstance_of exc ''HttpResponseError'' \<or> isinstance_of exc ''CloudError'' then
              if has_substring ''AuthorizationFailed'' (exn_msg exc) then
                bnd (if \<not> opened then
                       bnd (emit (BrowserOpen (PIMCOMMON_URL @ ''/azurerbac''))) (\<lambda>_.
                       emit (Print pim_notice_storage))
                     else ret ()) (\<lambda>_.
                bnd (emit (Print ''New attempt of app registration in 1 minute.'')) (\<lambda>_.
                bnd (emit (Sleep 60)) (\<lambda>_.
                  ret (Inr True))))
              else
                raise (RuntimeError ''Not able to create new storage account.'' (Some exc))
            else raise exc)))"

definition role_assignment_args :: "'w world \<Rightarrow> string \<Rightarrow> json \<Rightarrow> json \<Rightarrow> string \<Rightarrow> json list" where
  "role_assignment_args W role user_id resource_group_id name =
     [JStr ''role'', JStr ''assignment'', JStr ''create'', JStr ''--role'', JStr role,
      JStr ''--assignee'', user_id, JStr ''--scope'',
      JStr (format_value W resource_group_id
            @ ''/providers/Microsoft.Storage/storageAccounts/'' @ name)]"

text \<open>The statements after the loop: the signed-in user, the group's id, two roles.\<close>

definition assign_upload_roles ::
  "string list \<Rightarrow> 'w world \<Rightarrow> string \<Rightarrow> string \<Rightarrow> string \<Rightarrow> ('w, unit) run" where
  "assign_upload_roles ns W subscription resource_group name =
     bnd (azure_cli ns W
            (map JStr [''ad'', ''signed-in-user'', ''show'', ''--query'', ''objectId'',
                       ''-o'', ''tsv''])) (\<lambda>user_id.
     bnd (azure_cli ns W
            (map JStr [''group'', ''show'', ''--subscription'', subscription,
                       ''--name'', resource_group])) (\<lambda>shown.
     bnd (lift (getitem_key shown ''id'')) (\<lambda>resource_group_id.
     bnd (azure_cli ns W
            (role_assignment_args W ''Storage Blob Data Contributor''
               user_id resource_group_id name)) (\<lambda>_.
     bnd (azure_cli ns W
            (role_assignment_args W ''Storage Account Key Operator Service Role''
               user_id resource_group_id name)) (\<lambda>_.
       ret ())))))"

text \<open>\<open>fuel\<close> bounds the iterations of the loop that are followed.\<close>

definition create_storage_account ::
  "nat \<Rightarrow> string list \<Rightarrow> 'w world \<Rightarrow> string \<Rightarrow> string \<Rightarrow> string
   \<Rightarrow> 'w st \<Rightarrow> (exn + unit) option \<times> 'w st" where
  "create_storage_account fuel ns W subscription resource_group name s =
     and_then
       (while_true fuel
          (create_account_iteration ns W (account_create_args subscription resource_group name))
          False s)
       (\<lambda>_. assign_upload_roles ns W subscription resource_group name)"


section \<open>Uploading a folder\<close>

text \<open>
  A path is the list of its components. What lies at \<^verbatim>\<open>source_folder\<close> is a tree:
  \<open>File\<close> is an entry for which \<^verbatim>\<open>is_file()\<close> holds, \<open>Dir\<close> a directory with its
  named entries, \<open>Other\<close> anything else (a socket, a dangling link, a link to a
  directory, or no entry at all). The tree is read as it is when the function is
  called, and reading it is taken not to raise.
\<close>

datatype node = File | Other | Dir "(string \<times> node) list"

text \<open>
  \<^verbatim>\<open>source_folder.rglob("*")\<close>: every entry below the folder, at any depth, with the
  folder's own path in front. CPython visits the folder and its subdirectories in
  pre-order and yields all entries of a directory before it descends: first the entries
  of the folder itself, then, for each subdirectory in turn, what \<^verbatim>\<open>rglob\<close> yields
  below it. The order of the entries of one directory is the operating system's; it is
  the order of the list in \<open>Dir\<close>. What is not a directory has nothing below it.
\<close>

fun rglob :: "string list \<Rightarrow> node \<Rightarrow> (string list \<times> node) list"
and rglob_subdirs :: "string list \<Rightarrow> (string \<times> node) list \<Rightarrow> (string list \<times> node) list" where
  "rglob p (Dir es) = map (\<lambda>(n, c). (p @ [n], c)) es @ rglob_subdirs p es"
| "rglob p File = []"
| "rglob p Other = []"
| "rglob_subdirs p [] = []"
| "rglob_subdirs p ((n, c) # es) = rglob (p @ [n]) c @ rglob_subdirs p es"

definition is_file :: "node \<Rightarrow> bool" where
  "is_file n = (n = File)"

definition paths_to_upload :: "string list \<Rightarrow> node \<Rightarrow> string list list" where
  "paths_to_upload source_folder tree =
     map fst (filter (\<lambda>(path, n). is_file n) (rglob source_folder tree))"

definition relative_to :: "string list \<Rightarrow> string list \<Rightarrow> exn + string list" where
  "relative_to path other =
     (if prefix other path then Inr (drop (length other) path)
      else Inl (ValueError ''path is not in the subpath of the other path''))"

fun as_posix :: "string list \<Rightarrow> string" where
  "as_posix [] = ''.''"
| "as_posix [c] = c"
| "as_posix (c # d # cs) = c @ ''/'' @ as_posix (d # cs)"

definition import_module :: "'w world \<Rightarrow> string \<Rightarrow> ('w, unit) run" where
  "import_module W m =
     ask (ImportModule m)
       (\<lambda>w. (if ext_importable W m then Inr () else Inl (ModuleNotFoundError m), w))"

text \<open>\<^verbatim>\<open>_upload_file\<close>, and the body of the sequential loop: one file to one blob.\<close>

definition upload_file ::
  "'w world \<Rightarrow> string \<Rightarrow> string \<Rightarrow> string list \<Rightarrow> string list \<Rightarrow> ('w, unit) run" where
  "upload_file W conn container_name source_folder path =
     bnd (ask (OpenFile path) (ext_open_file W path)) (\<lambda>_.
     bnd (lift (relative_to path source_folder)) (\<lambda>rel.
     ask (UploadBlob conn container_name (as_posix rel) path)
         (ext_upload_blob W conn container_name (as_posix rel) path)))"

text \<open>Python 3.6: a \<^verbatim>\<open>for\<close> loop, which the first failing upload leaves.\<close>

fun upload_each ::
  "'w world \<Rightarrow> string \<Rightarrow> string \<Rightarrow> string list \<Rightarrow> string list list \<Rightarrow> ('w, unit) run" where
  "upload_each W conn container_name source_folder [] = ret ()"
| "upload_each W conn container_name source_folder (path # paths) =
     bnd (upload_file W conn container_name source_folder path)
       (\<lambda>_. upload_each W conn container_name source_folder paths)"

text \<open>
  Python 3.7 and later: one task per path, all created before the first is awaited, so
  every upload is started; the batch fails when a task fails. The interleaving of the
  tasks is not modelled: the uploads are issued in the order of the list, and of the
  failures the first in that order is the one raised.
\<close>

fun upload_tasks ::
  "'w world \<Rightarrow> string \<Rightarrow> string \<Rightarrow> string list \<Rightarrow> string list list \<Rightarrow> ('w, unit) run" where
  "upload_tasks W conn container_name source_folder [] s = (Inr (), s)"
| "upload_tasks W conn container_name source_folder (path # paths) s =
     (case upload_file W conn container_name source_folder path s of
        (r, s1) \<Rightarrow>
          (case upload_tasks W conn container_name source_folder paths s1 of
             (r', s2) \<Rightarrow> (case r of Inl e \<Rightarrow> (Inl e, s2) | Inr u \<Rightarrow> (r', s2))))"

text \<open>
  \<^verbatim>\<open>_upload_batch\<close>; \<open>py37\<close> is \<^verbatim>\<open>sys.version_info >= (3, 7)\<close>, \<open>tree\<close> what lies at
  \<^verbatim>\<open>source_folder\<close>.
\<close>

definition upload_batch ::
  "string list \<Rightarrow> 'w world \<Rightarrow> bool \<Rightarrow> json \<Rightarrow> json \<Rightarrow> string \<Rightarrow> string
   \<Rightarrow> string list \<Rightarrow> node \<Rightarrow> ('w, unit) run" where
  "upload_batch ns W py37 subscription resource_group storage_name container_name
     source_folder tree =
     (if py37 then
        bnd (import_module W ''tqdm.asyncio'') (\<lambda>_.
        bnd (import_module W ''azure.storage.blob.aio'') (\<lambda>_.
        bnd (connection_string ns W subscription resource_group storage_name) (\<lambda>conn.
          upload_tasks W conn container_name source_folder
            (paths_to_upload source_folder tree))))
      else
        bnd (import_module W ''tqdm'') (\<lambda>_.
        bnd (import_module W ''azure.storage.blob'') (\<lambda>_.
        bnd (connection_string ns W subscription resource_group storage_name) (\<lambda>conn.
          upload_each W conn container_name source_folder
            (paths_to_upload source_folder tree)))))"

text \<open>
  One round of \<^verbatim>\<open>for _ in range(5)\<close> in \<^verbatim>\<open>storage_container_upload_folder\<close>: \<open>True\<close>
  when the \<^verbatim>\<open>try\<close> block reached its \<^verbatim>\<open>return\<close>, \<open>False\<close> when the handler passed.
  The arguments \<^verbatim>\<open>subscription\<close> and \<^verbatim>\<open>resource_group\<close> of the call are neither
  parameters nor locals of the function, so they are global reads; the handler reads
  the global \<^verbatim>\<open>AzureHttpError\<close> before it can match. The \<^verbatim>\<open>finally\<close> block runs on
  every way out, the \<^verbatim>\<open>return\<close> included.
\<close>

definition upload_attempt ::
  "string list \<Rightarrow> 'w world \<Rightarrow> bool \<Rightarrow> string \<Rightarrow> string \<Rightarrow> string list \<Rightarrow> node
   \<Rightarrow> ('w, bool) run" where
  "upload_attempt ns W py37 storage_name container_name source_folder tree =
     try_finally
       (try_except
          (bnd (load_global ns ''subscription'') (\<lambda>_.
           bnd (load_global ns ''resource_group'') (\<lambda>_.
           bnd (upload_batch ns W py37 (ext_global W ''subscription'')
                  (ext_global W ''resource_group'') storage_name container_name
                  source_folder tree) (\<lambda>_.
             ret True))))
          (\<lambda>exc.
             bnd (load_global ns ''AzureHttpError'') (\<lambda>_.
               if isinstance_of exc ''AzureHttpError'' then ret False else raise exc)))
       (bnd (emit (Print ''Waiting on Azure access activation... please wait.'')) (\<lambda>_.
        emit (Sleep 60)))"

primrec upload_attempts ::
  "nat \<Rightarrow> string list \<Rightarrow> 'w world \<Rightarrow> bool \<Rightarrow> string \<Rightarrow> string \<Rightarrow> string list \<Rightarrow> node
   \<Rightarrow> ('w, unit) run" where
  "upload_attempts 0 ns W py37 storage_name container_name source_folder tree =
     raise (RuntimeError ''Not able to upload folder to blob storage container.'' None)"
| "upload_attempts (Suc n) ns W py37 storage_name container_name source_folder tree =
     bnd (upload_attempt ns W py37 storage_name container_name source_folder tree)
       (\<lambda>returned.
          if returned then ret ()
          else upload_attempts n ns W py37 storage_name container_name source_folder tree)"

definition storage_container_upload_folder ::
  "string list \<Rightarrow> 'w world \<Rightarrow> bool \<Rightarrow> string \<Rightarrow> string \<Rightarrow> string list \<Rightarrow> node
   \<Rightarrow> ('w, unit) run" where
  "storage_container_upload_folder ns W py37 storage_name container_name source_folder tree =
     upload_attempts 5 ns W py37 storage_name container_name source_folder tree"

section \<open>App registrations\<close>

definition graph_headers :: "string list \<Rightarrow> 'w world \<Rightarrow> ('w, string) run" where
  "graph_headers ns W =
     bnd (credential ns) (\<lambda>_. ask (GetToken GRAPH_BASE_URL) (ext_get_token W GRAPH_BASE_URL))"

text \<open>
  A call of \<^verbatim>\<open>requests\<close>: the URL is built, then \<^verbatim>\<open>_graph_headers()\<close> fetches a token,
  then the request is sent.
\<close>

definition graph_request ::
  "string list \<Rightarrow> 'w world \<Rightarrow> http_method \<Rightarrow> string \<Rightarrow> json option \<Rightarrow> ('w, json) run" where
  "graph_request ns W m endpoint body =
     bnd (graph_headers ns W) (\<lambda>token.
     ask (Http m (GRAPH_BASE_URL @ ''/v1.0/'' @ endpoint) body)
         (ext_http W m (GRAPH_BASE_URL @ ''/v1.0/'' @ endpoint) token body))"

definition quoted :: "string \<Rightarrow> string" where
  "quoted s = [CHR 0x27] @ s @ [CHR 0x27]"

definition object_id_from_app_id :: "string list \<Rightarrow> 'w world \<Rightarrow> json \<Rightarrow> ('w, json) run" where
  "object_id_from_app_id ns W app_registration_id =
     bnd (graph_request ns W GET
            (''applications?$filter=appID eq '' @ quoted (format_value W app_registration_id))
            None) (\<lambda>data.
     bnd (lift (getitem_key data ''value'')) (\<lambda>v.
     bnd (lift (getitem0 v)) (\<lambda>first.
     lift (getitem_key first ''id''))))"

text \<open>\<^verbatim>\<open>existing_app_registration\<close>; \<open>JNull\<close> is \<^verbatim>\<open>None\<close>.\<close>

definition existing_app_registration :: "string list \<Rightarrow> 'w world \<Rightarrow> string \<Rightarrow> ('w, json) run" where
  "existing_app_registration ns W display_name =
     bnd (graph_request ns W GET
            (''applications?$filter=displayName eq '' @ quoted display_name) None) (\<lambda>data.
     bnd (lift (getitem_key data ''value'')) (\<lambda>v.
       if truthy v then
         bnd (lift (getitem0 v)) (\<lambda>first. lift (getitem_key first ''appId''))
       else ret JNull))"

definition create_app_registration :: "string list \<Rightarrow> 'w world \<Rightarrow> string \<Rightarrow> ('w, json) run" where
  "create_app_registration ns W display_name =
     bnd (existing_app_registration ns W display_name) (\<lambda>existing_app_id.
       if existing_app_id \<noteq> JNull then ret existing_app_id
       else
         bnd (graph_request ns W POST ''applications''
                (Some (JObj [(''displayName'', JStr display_name),
                             (''signInAudience'', JStr ''AzureADMyOrg'')]))) (\<lambda>data.
         bnd (lift (contains_str data ''error'')) (\<lambda>has_error.
         bnd (if has_error then
                bnd (lift (getitem_key data ''error'')) (\<lambda>err.
                bnd (lift (getitem_key err ''code'')) (\<lambda>code.
                  ret (code = JStr ''Authorization_RequestDenied'')))
              else ret False) (\<lambda>denied.
           if denied then
             raise (PermissionError ''Insufficient privileges to create new app registration.'')
           else lift (getitem_key data ''appId'')))))"

subsection \<open>Floats, durations and instants\<close>

text \<open>
  \<^verbatim>\<open>create_secret\<close> computes \<^verbatim>\<open>datetime.datetime.now() +
  datetime.timedelta(days=365.242 * years)\<close>. The product is a product of IEEE 754
  doubles. A double is a pair \<open>(m, e)\<close> that stands for \<open>m * 2 ^ e\<close>, with at most 53
  significant bits in \<open>m\<close>; every operation computes the exact result and rounds it
  to 53 bits, ties to the even neighbour. (Exponent overflow is not tracked: a value of
  that size makes \<^verbatim>\<open>timedelta\<close> raise \<^verbatim>\<open>OverflowError\<close>, as the overflow itself does.)
\<close>

type_synonym double = "int \<times> int"

text \<open>The number of binary digits of a positive integer.\<close>

function bit_length :: "int \<Rightarrow> int" where
  "bit_length n = (if n \<le> 0 then 0 else 1 + bit_length (n div 2))"
  by pat_completeness auto
termination
  by (relation "measure nat") auto

declare bit_length.simps [simp del]

text \<open>\<open>n / d\<close> rounded to the nearest integer, ties to even, for \<open>d > 0\<close>.\<close>

definition round_half_even :: "int \<Rightarrow> int \<Rightarrow> int" where
  "round_half_even n d =
     (let q = n div d; r = n mod d
      in if 2 * r < d then q
         else if d < 2 * r then q + 1
         else if even q then q else q + 1)"

text \<open>The double nearest to \<open>n * 2 ^ k\<close>.\<close>

definition to_double :: "int \<Rightarrow> int \<Rightarrow> double" where
  "to_double n k =
     (let s = bit_length \<bar>n\<bar> - 53
      in if s \<le> 0 then (n, k) else (round_half_even n (2 ^ nat s), k + s))"

definition float_of_int :: "int \<Rightarrow> double" where
  "float_of_int n = to_double n 0"

definition float_mul :: "double \<Rightarrow> double \<Rightarrow> double" where
  "float_mul x y = (case x of (m1, e1) \<Rightarrow> case y of (m2, e2) \<Rightarrow> to_double (m1 * m2) (e1 + e2))"

text \<open>The double that the literal \<^verbatim>\<open>365.242\<close> denotes: the one nearest to 365242/1000.\<close>

definition float_365_242 :: double where
  "float_365_242 = (6425405215234589, - 44)"

text \<open>A double rounded to the nearest integer, ties to even.\<close>

definition round_double :: "double \<Rightarrow> int" where
  "round_double x =
     (case x of (m, e) \<Rightarrow> if 0 \<le> e then m * 2 ^ nat e else round_half_even m (2 ^ nat (- e)))"

definition OverflowError :: "string \<Rightarrow> exn" where
  "OverflowError m =
     Exn [''OverflowError'', ''ArithmeticError'', ''Exception'', ''BaseException''] m None"

definition us_per_day :: int where
  "us_per_day = 86400000000"

text \<open>
  \<^verbatim>\<open>timedelta(days=x)\<close> for a float \<open>x\<close>, in microseconds. CPython splits \<open>x\<close> into its
  whole and fractional part (exactly), counts the whole days in microseconds as an
  integer, multiplies the fraction by the microseconds of a day as doubles, and rounds
  the sum to a whole microsecond, ties to even. More than 999999999 days either way
  raise \<^verbatim>\<open>OverflowError\<close>; its message, which names the number of days and differs
  between CPython's two implementations of the module, is cut down to a fixed text.
\<close>

definition timedelta_days :: "double \<Rightarrow> exn + int" where
  "timedelta_days x =
     (case x of (m, e) \<Rightarrow>
        let whole = (if 0 \<le> e then m * 2 ^ nat e else sgn m * (\<bar>m\<bar> div 2 ^ nat (- e)));
            fraction = (if 0 \<le> e then (0, 0) else (m - whole * 2 ^ nat (- e), e));
            us = whole * us_per_day + round_double (float_mul fraction (float_of_int us_per_day));
            days = us div us_per_day
        in if days < - 999999999 \<or> 999999999 < days
           then Inl (OverflowError ''timedelta # of days is too large'')
           else Inr us)"

text \<open>
  An instant is a count of microseconds since 0001-01-01T00:00:00; \<^verbatim>\<open>datetime\<close> ends
  with the year 9999, whose last day has the ordinal 3652059.
\<close>

definition datetime_add :: "int \<Rightarrow> int \<Rightarrow> exn + int" where
  "datetime_add t delta =
     (if 0 \<le> t + delta \<and> t + delta < 3652059 * us_per_day then Inr (t + delta)
      else Inl (OverflowError ''date value out of range''))"

text \<open>
  \<^verbatim>\<open>isoformat()\<close>. The date of an ordinal is computed as CPython's \<^verbatim>\<open>_ord2ymd\<close>
  computes it, from the cycles of 400, 100 and 4 years.
\<close>

definition days_before_month :: "int list" where
  "days_before_month = [0, 0, 31, 59, 90, 120, 151, 181, 212, 243, 273, 304, 334]"

definition days_in_month :: "int list" where
  "days_in_month = [0, 31, 28, 31, 30, 31, 30, 31, 31, 30, 31, 30, 31]"

definition ord2ymd :: "int \<Rightarrow> int \<times> int \<times> int" where
  "ord2ymd ordinal =
     (let n = ordinal - 1;
          n400 = n div 146097; n = n mod 146097;
          n100 = n div 36524; n = n mod 36524;
          n4 = n div 1461; n = n mod 1461;
          n1 = n div 365; n = n mod 365;
          year = n400 * 400 + 1 + n100 * 100 + n4 * 4 + n1
      in if n1 = 4 \<or> n100 = 4 then (year - 1, 12, 31)
         else
           let leapyear = (n1 = 3 \<and> (n4 \<noteq> 24 \<or> n100 = 3));
               month = (n + 50) div 32;
               preceding = days_before_month ! nat month + (if 2 < month \<and> leapyear then 1 else 0)
           in if n < preceding
              then (year, month - 1,
                    n + (days_in_month ! nat (month - 1)
                         + (if month - 1 = 2 \<and> leapyear then 1 else 0)) - preceding + 1)
              else (year, month, n - preceding + 1))"

text \<open>\<open>decimal k n\<close>: the last \<open>k\<close> decimal digits of \<open>n\<close> (\<^verbatim>\<open>%0kd\<close> for \<open>n < 10 ^ k\<close>).\<close>

fun decimal :: "nat \<Rightarrow> int \<Rightarrow> string" where
  "decimal 0 n = []"
| "decimal (Suc k) n = decimal k (n div 10) @ [''0123456789'' ! nat (n mod 10)]"

definition isoformat :: "int \<Rightarrow> string" where
  "isoformat t =
     (let day = t div us_per_day; rest = t mod us_per_day
      in case ord2ymd (day + 1) of (y, m, d) \<Rightarrow>
           decimal 4 y @ ''-'' @ decimal 2 m @ ''-'' @ decimal 2 d @ ''T''
           @ decimal 2 (rest div 3600000000) @ '':''
           @ decimal 2 (rest div 60000000 mod 60) @ '':''
           @ decimal 2 (rest div 1000000 mod 60)
           @ (if rest mod 1000000 = 0 then [] else ''.'' @ decimal 6 (rest mod 1000000)))"

text \<open>
  \<^verbatim>\<open>create_secret\<close>. The left operand of the sum, the clock, is read first; then the
  duration is built, then added.
\<close>

definition create_secret ::
  "string list \<Rightarrow> 'w world \<Rightarrow> json \<Rightarrow> string \<Rightarrow> int \<Rightarrow> ('w, json) run" where
  "create_secret ns W app_registration_id secret_description years =
     bnd (object_id_from_app_id ns W app_registration_id) (\<lambda>object_id.
     bnd (ask Now (ext_now W)) (\<lambda>now.
     bnd (lift (timedelta_days (float_mul float_365_242 (float_of_int years)))) (\<lambda>delta.
     bnd (lift (datetime_add now delta)) (\<lambda>end_datetime.
     bnd (graph_request ns W POST
            (''applications/'' @ format_value W object_id @ ''/addPassword'')
            (Some (JObj [(''passwordCredential'',
                          JObj [(''displayName'', JStr secret_description),
                                (''endDateTime'', JStr (isoformat end_datetime))])]))) (\<lambda>data.
     lift (getitem_key data ''secretText''))))))"

text \<open>
  \<^verbatim>\<open>web["redirectUris"].append(reply_url)\<close> changes the list inside \<^verbatim>\<open>web\<close> in place;
  the model returns the changed list and stores it under the key.
\<close>

fun list_append :: "json \<Rightarrow> json \<Rightarrow> exn + json" where
  "list_append (JArr xs) x = Inr (JArr (xs @ [x]))"
| "list_append (JObj kvs) x = Inl (AttributeError ''object has no attribute append'')"
| "list_append (JStr s) x = Inl (AttributeError ''object has no attribute append'')"
| "list_append JNull x = Inl (AttributeError ''object has no attribute append'')"
| "list_append (JBool b) x = Inl (AttributeError ''object has no attribute append'')"
| "list_append (JNum n) x = Inl (AttributeError ''object has no attribute append'')"

fun set_key :: "string \<Rightarrow> json \<Rightarrow> (string \<times> json) list \<Rightarrow> (string \<times> json) list" where
  "set_key k v [] = [(k, v)]"
| "set_key k v ((k', v') # kvs) =
     (if k' = k then (k, v) # kvs else (k', v') # set_key k v kvs)"

fun with_key :: "json \<Rightarrow> string \<Rightarrow> json \<Rightarrow> json" where
  "with_key (JObj kvs) k v = JObj (set_key k v kvs)"
| "with_key d k v = d"

definition add_reply_url :: "string list \<Rightarrow> 'w world \<Rightarrow> json \<Rightarrow> string \<Rightarrow> ('w, unit) run" where
  "add_reply_url ns W app_registration_id reply_url =
     bnd (object_id_from_app_id ns W app_registration_id) (\<lambda>object_id.
     bnd (graph_request ns W GET (''applications/'' @ format_value W object_id) None) (\<lambda>data.
     bnd (lift (getitem_key data ''web'')) (\<lambda>web.
     bnd (lift (getitem_key web ''redirectUris'')) (\<lambda>uris.
     bnd (lift (contains_str uris reply_url)) (\<lambda>present.
     bnd (if \<not> present then
            bnd (lift (list_append uris (JStr reply_url))) (\<lambda>uris'.
              ret (with_key web ''redirectUris'' uris'))
          else ret web) (\<lambda>web'.
     bnd (graph_request ns W PATCH (''applications/'' @ format_value W object_id)
            (Some (JObj [(''web'', web')]))) (\<lambda>_.
       ret ())))))))"

definition create_service_principal ::
  "string list \<Rightarrow> 'w world \<Rightarrow> json \<Rightarrow> ('w, json \<times> json) run" where
  "create_service_principal ns W app_registration_id =
     bnd (graph_request ns W GET
            (''servicePrincipals?$filter=appID eq ''
             @ quoted (format_value W app_registration_id)) None) (\<lambda>data.
     bnd (lift (contains_str data ''error'')) (\<lambda>has_error.
     bnd (if \<not> has_error then
            bnd (lift (getitem_key data ''value'')) (\<lambda>v. ret (truthy v))
          else ret False) (\<lambda>found.
     bnd (if found then
            bnd (lift (getitem_key data ''value'')) (\<lambda>v.
            bnd (lift (getitem0 v)) (\<lambda>data_object.
            bnd (lift (getitem_key data_object ''appRoleAssignmentRequired'')) (\<lambda>required.
              if \<not> truthy required then
                raise (RuntimeError
                  (''Service principal already exists, and it does not require app role ''
                   @ ''assignments. Deployment stopped, as this should be set to true in ''
                   @ ''order to secure access.'') None)
              else ret data_object)))
          else
            bnd (graph_request ns W POST ''servicePrincipals''
                   (Some (JObj [(''appId'', app_registration_id),
                                (''appRoleAssignmentRequired'', JBool True)]))) (\<lambda>data_object.
              if has_error then
                raise (RuntimeError
                  (''Graph query failed with response '' @ format_value W data) None)
              else ret data_object)) (\<lambda>data_object.
     bnd (lift (getitem_key data_object ''id'')) (\<lambda>object_id.
     bnd (lift (getitem_key data_object ''appOwnerOrganizationId'')) (\<lambda>directory_tenant_id.
       ret (object_id, directory_tenant_id)))))))"

definition pim_notice_app :: string where
  "pim_notice_app =
     ''Not able to create new app registration. Do you have enough ''
     @ ''priviliges to do it? We automatically opened the URL to where ''
     @ ''you activate Azure PIM. Please activate necessary priviliges.''"

text \<open>
  One iteration of the loop of \<^verbatim>\<open>azure_app_registration_setup\<close>. \<^verbatim>\<open>PermissionError\<close> is
  a builtin, so the handler's clause always evaluates.
\<close>

definition app_setup_iteration ::
  "string list \<Rightarrow> 'w world \<Rightarrow> string \<Rightarrow> bool \<Rightarrow> ('w, (json \<times> json \<times> json) + bool) run" where
  "app_setup_iteration ns W display_name opened =
     try_except
       (bnd (create_app_registration ns W display_name) (\<lambda>app_registration_id.
        bnd (create_service_principal ns W app_registration_id) (\<lambda>(object_id, tenant_id).
          ret (Inl (app_registration_id, object_id, tenant_id)))))
       (\<lambda>exc.
          if isinstance_of exc ''PermissionError'' then
            bnd (if \<not> opened then
                   bnd (emit (BrowserOpen (PIMCOMMON_URL @ ''/aadmigratedroles''))) (\<lambda>_.
                   emit (Print pim_notice_app))
                 else ret ()) (\<lambda>_.
            bnd (emit (Print ''New attempt of app registration in 30 seconds.'')) (\<lambda>_.
            bnd (emit (Sleep 30)) (\<lambda>_.
              ret (Inr True))))
          else raise exc)"

definition app_setup_result ::
  "string list \<Rightarrow> 'w world \<Rightarrow> string \<Rightarrow> json \<times> json \<times> json
   \<Rightarrow> ('w, (string \<times> json) list) run" where
  "app_setup_result ns W proxy_redirect_url ids =
     (case ids of (app_registration_id, object_id, tenant_id) \<Rightarrow>
        bnd (create_secret ns W app_registration_id ''cli secret'' 100) (\<lambda>proxy_client_secret.
        bnd (add_reply_url ns W app_registration_id proxy_redirect_url) (\<lambda>_.
        bnd (ask (TokenUrlsafe 16) (ext_token_urlsafe W 16)) (\<lambda>cookie.
          ret [(''app_registration_id'', app_registration_id),
               (''object_id'', object_id),
               (''proxy_client_secret'', proxy_client_secret),
               (''proxy_cookie_secret'', JStr cookie),
               (''proxy_redirect_url'', JStr proxy_redirect_url),
               (''tenant_id'', tenant_id)]))))"

definition azure_app_registration_setup ::
  "nat \<Rightarrow> string list \<Rightarrow> 'w world \<Rightarrow> string \<Rightarrow> string
   \<Rightarrow> 'w st \<Rightarrow> (exn + (string \<times> json) list) option \<times> 'w st" where
  "azure_app_registration_setup fuel ns W display_name proxy_redirect_url s =
     and_then
       (while_true fuel (app_setup_iteration ns W display_name) False s)
       (app_setup_result ns W proxy_redirect_url)"

section \<open>Observations on runs\<close>

text \<open>
  \<open>adds_none P m\<close>: whatever the state and however \<open>m\<close> ends, \<open>m\<close> performs no effect
  that \<open>P\<close> selects.
\<close>

definition adds_none :: "(event \<Rightarrow> bool) \<Rightarrow> ('w, 'a) run \<Rightarrow> bool" where
  "adds_none P m = (\<forall>s. filter P (snd (snd (m s))) = filter P (snd s))"

text \<open>
  \<open>extends_trace m\<close>: whatever the state and however \<open>m\<close> ends, the effects performed
  before \<open>m\<close> are still there, in their order, and those of \<open>m\<close> come after them.
\<close>

definition extends_trace :: "('w, 'a) run \<Rightarrow> bool" where
  "extends_trace m = (\<forall>s. prefix (snd s) (snd (snd (m s))))"

text \<open>The two halves of a remediation prompt: the browser page and the console notice.\<close>

fun is_browser_open :: "event \<Rightarrow> bool" where
  "is_browser_open (BrowserOpen url) = True"
| "is_browser_open ev = False"

definition is_pim_notice :: "event \<Rightarrow> bool" where
  "is_pim_notice ev = (ev = Print pim_notice_storage \<or> ev = Print pim_notice_app)"

definition is_prompt :: "event \<Rightarrow> bool" where
  "is_prompt ev = (is_browser_open ev \<or> is_pim_notice ev)"

definition browser_opens :: "event list \<Rightarrow> nat" where
  "browser_opens tr = length (filter is_browser_open tr)"

definition pim_notices :: "event list \<Rightarrow> nat" where
  "pim_notices tr = length (filter is_pim_notice tr)"

text \<open>The blobs a run has written and the local files it has sent, in order.\<close>

fun is_upload :: "event \<Rightarrow> bool" where
  "is_upload (UploadBlob conn container_name blob path) = True"
| "is_upload ev = False"

fun blob_of :: "event \<Rightarrow> string" where
  "blob_of (UploadBlob conn container_name blob path) = blob"
| "blob_of ev = []"

fun file_of :: "event \<Rightarrow> string list" where
  "file_of (UploadBlob conn container_name blob path) = path"
| "file_of ev = []"

definition uploaded_blobs :: "event list \<Rightarrow> string list" where
  "uploaded_blobs tr = map blob_of (filter is_upload tr)"

definition uploaded_files :: "event list \<Rightarrow> string list list" where
  "uploaded_files tr = map file_of (filter is_upload tr)"

text \<open>
  The files a folder contains, at any depth, each by its path relative to the folder,
  and their number.
\<close>

fun files_below :: "node \<Rightarrow> string list list"
and files_in :: "(string \<times> node) list \<Rightarrow> string list list" where
  "files_below (Dir es) = files_in es"
| "files_below File = []"
| "files_below Other = []"
| "files_in [] = []"
| "files_in ((n, c) # es) =
     (if c = File then [[n]] else []) @ map ((#) n) (files_below c) @ files_in es"

fun count_files :: "node \<Rightarrow> nat"
and count_files_in :: "(string \<times> node) list \<Rightarrow> nat" where
  "count_files (Dir es) = count_files_in es"
| "count_files File = 0"
| "count_files Other = 0"
| "count_files_in [] = 0"
| "count_files_in ((n, c) # es) =
     (if c = File then 1 else 0) + count_files c + count_files_in es"

text \<open>
  A folder as a file system holds it: every name is non-empty and free of the
  separator, and no directory has two entries of one name.
\<close>

definition plain_name :: "string \<Rightarrow> bool" where
  "plain_name n = (n \<noteq> [] \<and> CHR ''/'' \<notin> set n)"

fun well_formed :: "node \<Rightarrow> bool"
and well_formed_entries :: "(string \<times> node) list \<Rightarrow> bool" where
  "well_formed (Dir es) = (distinct (map fst es) \<and> well_formed_entries es)"
| "well_formed File = True"
| "well_formed Other = True"
| "well_formed_entries [] = True"
| "well_formed_entries ((n, c) # es) = (plain_name n \<and> well_formed c \<and> well_formed_entries es)"

text \<open>The requests that create a resource, and those that list existing ones.\<close>

fun is_create_request :: "event \<Rightarrow> bool" where
  "is_create_request (Http POST url body) = True"
| "is_create_request (CreateContainer conn container_name) = True"
| "is_create_request (AzCli args) = (take 3 args = [JStr ''storage'', JStr ''account'', JStr ''create''])"
| "is_create_request ev = False"

fun is_listing :: "event \<Rightarrow> bool" where
  "is_listing (AccountsListByResourceGroup sid resource_group) = True"
| "is_listing (AccountsList sid) = True"
| "is_listing (BlobContainersList sid resource_group account_name) = True"
| "is_listing ev = False"

section \<open>Sample worlds\<close>

text \<open>
  A world in which every request succeeds; its state counts the requests answered. It
  has one subscription \<^verbatim>\<open>Sub\<close>, one storage account \<^verbatim>\<open>acct\<close> in the resource group
  asked for, one container \<^verbatim>\<open>c\<close>, and one app registration; its clock stands at
  2026-11-04T09:30:15.250000.
\<close>

definition sample_app :: json where
  "sample_app =
     JObj [(''id'', JStr ''oid-1''), (''appId'', JStr ''app-1''),
           (''appRoleAssignmentRequired'', JBool True),
           (''appOwnerOrganizationId'', JStr ''tenant-1''),
           (''web'', JObj [(''redirectUris'', JArr [])]),
           (''secretText'', JStr ''s3cr3t'')]"

definition sample_world :: "nat world" where
  "sample_world =
     \<lparr> ext_global = (\<lambda>x. JNull),
       ext_render = (\<lambda>v. ''<value>''),
       ext_importable = (\<lambda>m. True),
       ext_az_cli = (\<lambda>args w. (Inr (JObj [(''id'', JStr ''/subscriptions/sid-1/resourceGroups/rg'')]), Suc w)),
       ext_get_token = (\<lambda>scope w. (Inr ''token'', Suc w)),
       ext_http = (\<lambda>m url token body w.
          (Inr (if m = GET \<and> has_substring ''$filter'' url
                then JObj [(''value'', JArr [sample_app])] else sample_app), Suc w)),
       ext_subscriptions = (\<lambda>w. (Inr [(''Sub'', ''sid-1'')], Suc w)),
       ext_accounts_in_group = (\<lambda>sid resource_group w. (Inr [''acct''], Suc w)),
       ext_accounts = (\<lambda>sid w. (Inr [''acct''], Suc w)),
       ext_containers = (\<lambda>sid resource_group account_name w. (Inr [''c''], Suc w)),
       ext_list_keys = (\<lambda>sid resource_group account_name w. (Inr [''key-1''], Suc w)),
       ext_create_container = (\<lambda>conn container_name w. (Inr (), Suc w)),
       ext_open_file = (\<lambda>path w. (Inr (), Suc w)),
       ext_upload_blob = (\<lambda>conn container_name blob path w. (Inr (), Suc w)),
       ext_now = (\<lambda>w. (Inr 63929381415250000, Suc w)),
       ext_token_urlsafe = (\<lambda>nbytes w. (Inr ''cookie'', Suc w)) \<rparr>"

definition sample_tree :: node where
  "sample_tree =
     Dir [(''index.html'', File),
          (''assets'', Dir [(''app.js'', File), (''img'', Dir [(''logo.png'', File)])]),
          (''empty'', Dir []),
          (''run.sock'', Other)]"

text \<open>Azure's transient error of the upload path, and a world whose uploads all fail with it.\<close>

definition AzureHttpError :: "string \<Rightarrow> exn" where
  "AzureHttpError m =
     Exn [''AzureHttpError'', ''AzureException'', ''Exception'', ''BaseException''] m None"

definition failing_upload_world :: "nat world" where
  "failing_upload_world =
     sample_world \<lparr> ext_upload_blob :=
       (\<lambda>conn container_name blob path w.
          (Inl (AzureHttpError ''AuthorizationPermissionMismatch''), Suc w)) \<rparr>"

text \<open>A world in which every call of the command line client is refused for lack of privileges.\<close>

definition HttpResponseError :: "string \<Rightarrow> exn" where
  "HttpResponseError m =
     Exn [''HttpResponseError'', ''AzureError'', ''Exception'', ''BaseException''] m None"

definition unauthorized_world :: "nat world" where
  "unauthorized_world =
     sample_world \<lparr> ext_az_cli :=
       (\<lambda>args w. (Inl (HttpResponseError ''(AuthorizationFailed) The client does not have authorization''), Suc w)) \<rparr>"

text \<open>
  A world in which the container asked for exists already: the listing shows it and a
  second creation is refused.
\<close>

definition existing_container_world :: "nat world" where
  "existing_container_world =
     sample_world \<lparr> ext_create_container :=
       (\<lambda>conn container_name w.
          (if container_name = ''c''
           then Inl (Exn [''ResourceExistsError'', ''HttpResponseError'', ''AzureError'',
                          ''Exception'', ''BaseException'']
                         ''The specified container already exists.'' None)
           else Inr (), Suc w)) \<rparr>"

text \<open>A world whose storage account \<^verbatim>\<open>acct\<close> lies in another resource group than the one asked for.\<close>

definition other_group_world :: "nat world" where
  "other_group_world =
     sample_world \<lparr> ext_accounts_in_group := (\<lambda>sid resource_group w. (Inr [], Suc w)) \<rparr>"

text \<open>
  A Graph service that stores what it is sent. Its state is the \<^verbatim>\<open>web\<close> property of
  the one application it holds, whose application id is \<open>app_id\<close> and object id
  \<open>oid\<close>. A \<^verbatim>\<open>GET\<close> returns the application (inside a \<^verbatim>\<open>value\<close> list for a query by
  filter), a \<^verbatim>\<open>PATCH\<close> with a \<^verbatim>\<open>web\<close> property replaces the stored one.
\<close>

definition stored_app :: "string \<Rightarrow> string \<Rightarrow> json \<Rightarrow> json" where
  "stored_app app_id oid web = JObj [(''id'', JStr oid), (''appId'', JStr app_id), (''web'', web)]"

definition graph_store :: "string \<Rightarrow> string \<Rightarrow> json world" where
  "graph_store app_id oid =
     \<lparr> ext_global = (\<lambda>x. JNull),
       ext_render = (\<lambda>v. ''<value>''),
       ext_importable = (\<lambda>m. True),
       ext_az_cli = (\<lambda>args web. (Inr JNull, web)),
       ext_get_token = (\<lambda>scope web. (Inr ''token'', web)),
       ext_http = (\<lambda>m url token body web.
          (case m of
             GET \<Rightarrow>
               (if url = GRAPH_BASE_URL @ ''/v1.0/applications?$filter=appID eq '' @ quoted app_id
                then (Inr (JObj [(''value'', JArr [stored_app app_id oid web])]), web)
                else if url = GRAPH_BASE_URL @ ''/v1.0/applications/'' @ oid
                then (Inr (stored_app app_id oid web), web)
                else (Inr (JObj [(''error'', JObj [(''code'', JStr ''Request_ResourceNotFound'')])]), web))
           | PATCH \<Rightarrow>
               (if url = GRAPH_BASE_URL @ ''/v1.0/applications/'' @ oid
                then (case body of
                        Some d \<Rightarrow> (case getitem_key d ''web'' of
                                     Inr web' \<Rightarrow> (Inr JNull, web')
                                   | Inl e \<Rightarrow> (Inr JNull, web))
                      | None \<Rightarrow> (Inr JNull, web))
                else (Inr JNull, web))
           | POST \<Rightarrow> (Inr JNull, web))),
       ext_subscriptions = (\<lambda>web. (Inr [], web)),
       ext_accounts_in_group = (\<lambda>sid resource_group web. (Inr [], web)),
       ext_accounts = (\<lambda>sid web. (Inr [], web)),
       ext_containers = (\<lambda>sid resource_group account_name web. (Inr [], web)),
       ext_list_keys = (\<lambda>sid resource_group account_name web. (Inr [], web)),
       ext_create_container = (\<lambda>conn container_name web. (Inr (), web)),
       ext_open_file = (\<lambda>path web. (Inr (), web)),
       ext_upload_blob = (\<lambda>conn container_name blob path web. (Inr (), web)),
       ext_now = (\<lambda>web. (Inr 63929381415250000, web)),
       ext_token_urlsafe = (\<lambda>nbytes web. (Inr ''cookie'', web)) \<rparr>"

text \<open>The redirect URIs a \<^verbatim>\<open>web\<close> property holds.\<close>

definition redirect_uris :: "json \<Rightarrow> exn + json" where
  "redirect_uris web = getitem_key web ''redirectUris''"

text \<open>Two calls of \<^verbatim>\<open>add_reply_url\<close> with the same arguments, one after the other.\<close>

definition add_reply_url_twice :: "string list \<Rightarrow> 'w world \<Rightarrow> json \<Rightarrow> string \<Rightarrow> ('w, unit) run" where
  "add_reply_url_twice ns W app_registration_id reply_url =
     bnd (add_reply_url ns W app_registration_id reply_url)
       (\<lambda>_. add_reply_url ns W app_registration_id reply_url)"

text \<open>
  A Graph service that knows no application of the name asked for and denies the
  creation of one.
\<close>

definition denied_world :: "nat world" where
  "denied_world =
     sample_world \<lparr> ext_http :=
       (\<lambda>m url token body w.
          (Inr (if m = GET then JObj [(''value'', JArr [])]
                else JObj [(''error'', JObj [(''code'', JStr ''Authorization_RequestDenied'')])]),
           Suc w)) \<rparr>"

definition sample_web :: json where
  "sample_web =
     JObj [(''homePageUrl'', JNull), (''redirectUris'', JArr [JStr ''https://a.example/cb''])]"

text \<open>A Graph service that answers a request for a new password with an empty secret.\<close>

definition empty_secret_world :: "nat world" where
  "empty_secret_world =
     sample_world \<lparr> ext_http :=
       (\<lambda>m url token body w.
          (Inr (if m = GET \<and> has_substring ''$filter'' url
                then JObj [(''value'', JArr [sample_app])]
                else JObj [(''secretText'', JStr [])]), Suc w)) \<rparr>"

section \<open>Reasoning about runs\<close>

lemma bnd_InrD:
  assumes "bnd m f s = (Inr b, s')"
  obtains a s1 where "m s = (Inr a, s1)" "f a s1 = (Inr b, s')"
  using assms by (auto simp: bnd_def split: prod.splits sum.splits)

lemma adds_noneD: "adds_none P m \<Longrightarrow> m s = (r, s') \<Longrightarrow> filter P (snd s') = filter P (snd s)"
  unfolding adds_none_def by (metis snd_conv)

lemma bnd_assoc: "bnd (bnd m f) g = bnd m (\<lambda>a. bnd (f a) g)"
  by (rule ext) (simp add: bnd_def split: prod.splits sum.splits)

lemma adds_none_ret: "adds_none P (ret a)"
  by (simp add: adds_none_def ret_def)

lemma adds_none_raise: "adds_none P (raise e)"
  by (simp add: adds_none_def raise_def)

lemma adds_none_lift: "adds_none P (lift r)"
  by (simp add: adds_none_def lift_def)

lemma adds_none_load_global: "adds_none P (load_global ns x)"
  by (simp add: adds_none_def load_global_def ret_def raise_def)

lemma adds_none_emit: "\<not> P ev \<Longrightarrow> adds_none P (emit ev)"
  by (simp add: adds_none_def emit_def)

lemma adds_none_ask: "\<not> P ev \<Longrightarrow> adds_none P (ask ev f)"
  by (simp add: adds_none_def ask_def split: prod.splits)

lemma adds_none_bnd:
  assumes "adds_none P m" "\<And>a. adds_none P (f a)"
  shows "adds_none P (bnd m f)"
  unfolding adds_none_def
proof
  fix s
  show "filter P (snd (snd (bnd m f s))) = filter P (snd s)"
  proof -
    obtain r s1 where Pair: "m s = (r, s1)" by (cases "m s") auto
    have 1: "filter P (snd s1) = filter P (snd s)"
      using adds_noneD[OF assms(1) Pair] .
    show ?thesis
    proof (cases r)
      case (Inl e)
      with Pair 1 show ?thesis by (simp add: bnd_def)
    next
      case (Inr a)
      obtain r2 s2 where 2: "f a s1 = (r2, s2)" by (cases "f a s1")
      have "filter P (snd s2) = filter P (snd s1)"
        using adds_noneD[OF assms(2) 2] .
      with Pair Inr 1 2 show ?thesis by (simp add: bnd_def)
    qed
  qed
qed

lemma adds_none_try_except:
  assumes "adds_none P m" "\<And>e. adds_none P (h e)"
  shows "adds_none P (try_except m h)"
  unfolding adds_none_def
proof
  fix s
  show "filter P (snd (snd (try_except m h s))) = filter P (snd s)"
  proof -
    obtain r s1 where Pair: "m s = (r, s1)" by (cases "m s") auto
    have 1: "filter P (snd s1) = filter P (snd s)"
      using adds_noneD[OF assms(1) Pair] .
    show ?thesis
    proof (cases r)
      case (Inr a)
      with Pair 1 show ?thesis by (simp add: try_except_def)
    next
      case (Inl e)
      obtain r2 s2 where 2: "h e s1 = (r2, s2)" by (cases "h e s1")
      have "filter P (snd s2) = filter P (snd s1)"
        using adds_noneD[OF assms(2) 2] .
      with Pair Inl 1 2 show ?thesis by (simp add: try_except_def)
    qed
  qed
qed

lemma adds_none_if:
  "adds_none P m1 \<Longrightarrow> adds_none P m2 \<Longrightarrow> adds_none P (if b then m1 else m2)"
  by simp

lemma adds_none_case_list:
  "adds_none P m1 \<Longrightarrow> (\<And>x xs. adds_none P (m2 x xs)) \<Longrightarrow>
   adds_none P (case l of [] \<Rightarrow> m1 | x # xs \<Rightarrow> m2 x xs)"
  by (cases l) auto

lemma adds_none_case_option:
  "adds_none P m1 \<Longrightarrow> (\<And>x. adds_none P (m2 x)) \<Longrightarrow>
   adds_none P (case opt of None \<Rightarrow> m1 | Some x \<Rightarrow> m2 x)"
  by (cases opt) auto

lemma adds_none_case_prod:
  "(\<And>a b. adds_none P (m a b)) \<Longrightarrow> adds_none P (case p of (a, b) \<Rightarrow> m a b)"
  by (cases p) auto

lemmas adds_none_rules =
  adds_none_bnd adds_none_try_except adds_none_if adds_none_case_list adds_none_case_option
  adds_none_case_prod adds_none_ret adds_none_raise adds_none_lift adds_none_load_global
  adds_none_emit adds_none_ask

lemma adds_none_credential: "adds_none P (credential ns)"
  unfolding credential_def by (rule adds_none_load_global)

lemma adds_none_subscription_id:
  "\<not> P SubscriptionsList \<Longrightarrow> adds_none P (subscription_id ns W subscription_name)"
  unfolding subscription_id_def
  by (intro adds_none_rules adds_none_credential) 

lemma adds_none_connection_string:
  assumes "\<not> P SubscriptionsList" "\<And>sid rg a. \<not> P (ListKeys sid rg a)"
  shows "adds_none P (connection_string ns W subscription resource_group storage_account)"
  unfolding connection_string_def get_storage_account_access_key_def
  by (intro adds_none_rules adds_none_credential adds_none_subscription_id assms)

lemma adds_none_import_module: "\<not> P (ImportModule m) \<Longrightarrow> adds_none P (import_module W m)"
  unfolding import_module_def by (rule adds_none_ask)

lemma adds_none_weaken:
  assumes "adds_none P m" "\<And>ev. Q ev \<Longrightarrow> P ev"
  shows "adds_none Q m"
proof -
  have "filter Q xs = filter Q (filter P xs)" for xs
    using assms(2) by (induction xs) auto
  then show ?thesis
    using assms(1) unfolding adds_none_def by metis
qed

lemma adds_none_azure_cli:
  "(\<And>args. \<not> P (AzCli args)) \<Longrightarrow> adds_none P (azure_cli ns W args)"
  unfolding azure_cli_def by (intro adds_none_rules) simp_all

lemma adds_none_assign_upload_roles:
  "(\<And>args. \<not> P (AzCli args)) \<Longrightarrow>
   adds_none P (assign_upload_roles ns W subscription resource_group name)"
  unfolding assign_upload_roles_def by (intro adds_none_rules adds_none_azure_cli) simp_all

lemma adds_none_graph_request:
  "(\<And>scope. \<not> P (GetToken scope)) \<Longrightarrow> (\<And>url. \<not> P (Http m url body)) \<Longrightarrow>
   adds_none P (graph_request ns W m endpoint body)"
  unfolding graph_request_def graph_headers_def
  by (intro adds_none_rules adds_none_credential) simp_all

lemma adds_none_object_id_from_app_id:
  "(\<And>scope. \<not> P (GetToken scope)) \<Longrightarrow> (\<And>url body. \<not> P (Http GET url body)) \<Longrightarrow>
   adds_none P (object_id_from_app_id ns W app_registration_id)"
  unfolding object_id_from_app_id_def
  by (intro adds_none_rules adds_none_graph_request) simp_all

lemma adds_none_existing_app_registration:
  "(\<And>scope. \<not> P (GetToken scope)) \<Longrightarrow> (\<And>url body. \<not> P (Http GET url body)) \<Longrightarrow>
   adds_none P (existing_app_registration ns W display_name)"
  unfolding existing_app_registration_def
  by (intro adds_none_rules adds_none_graph_request) simp_all

lemma adds_none_create_app_registration:
  "(\<And>scope. \<not> P (GetToken scope)) \<Longrightarrow> (\<And>m url body. \<not> P (Http m url body)) \<Longrightarrow>
   adds_none P (create_app_registration ns W display_name)"
  unfolding create_app_registration_def
  by (intro adds_none_rules adds_none_graph_request adds_none_existing_app_registration) simp_all

lemma adds_none_create_service_principal:
  "(\<And>scope. \<not> P (GetToken scope)) \<Longrightarrow> (\<And>m url body. \<not> P (Http m url body)) \<Longrightarrow>
   adds_none P (create_service_principal ns W app_registration_id)"
  unfolding create_service_principal_def
  by (intro adds_none_rules adds_none_graph_request) simp_all

lemma adds_none_create_secret:
  "(\<And>scope. \<not> P (GetToken scope)) \<Longrightarrow> (\<And>m url body. \<not> P (Http m url body)) \<Longrightarrow>
   \<not> P Now \<Longrightarrow>
   adds_none P (create_secret ns W app_registration_id secret_description years)"
  unfolding create_secret_def
  by (intro adds_none_rules adds_none_graph_request adds_none_object_id_from_app_id) simp_all

lemma adds_none_add_reply_url:
  "(\<And>scope. \<not> P (GetToken scope)) \<Longrightarrow> (\<And>m url body. \<not> P (Http m url body)) \<Longrightarrow>
   adds_none P (add_reply_url ns W app_registration_id reply_url)"
  unfolding add_reply_url_def
  by (intro adds_none_rules adds_none_graph_request adds_none_object_id_from_app_id) simp_all

lemma adds_none_app_setup_result:
  "(\<And>scope. \<not> P (GetToken scope)) \<Longrightarrow> (\<And>m url body. \<not> P (Http m url body)) \<Longrightarrow>
   \<not> P Now \<Longrightarrow> (\<And>n. \<not> P (TokenUrlsafe n)) \<Longrightarrow>
   adds_none P (app_setup_result ns W proxy_redirect_url ids)"
  unfolding app_setup_result_def
  by (intro adds_none_rules adds_none_create_secret adds_none_add_reply_url) simp_all


subsection \<open>Effects are only ever added at the end\<close>

lemma extends_traceD: "extends_trace m \<Longrightarrow> m s = (r, s') \<Longrightarrow> prefix (snd s) (snd s')"
  unfolding extends_trace_def by (metis snd_conv)

lemma extends_trace_ret: "extends_trace (ret a)"
  by (simp add: extends_trace_def ret_def)

lemma extends_trace_raise: "extends_trace (raise e)"
  by (simp add: extends_trace_def raise_def)

lemma extends_trace_lift: "extends_trace (lift r)"
  by (simp add: extends_trace_def lift_def)

lemma extends_trace_load_global: "extends_trace (load_global ns x)"
  by (simp add: extends_trace_def load_global_def ret_def raise_def)

lemma extends_trace_emit: "extends_trace (emit ev)"
  by (simp add: extends_trace_def emit_def)

lemma extends_trace_ask: "extends_trace (ask ev f)"
  by (simp add: extends_trace_def ask_def split: prod.splits)

lemma extends_trace_bnd:
  assumes "extends_trace m" "\<And>a. extends_trace (f a)"
  shows "extends_trace (bnd m f)"
  unfolding extends_trace_def
proof
  fix s
  obtain r s1 where 1: "m s = (r, s1)" by (cases "m s") auto
  note p1 = extends_traceD[OF assms(1) 1]
  show "prefix (snd s) (snd (snd (bnd m f s)))"
  proof (cases r)
    case (Inl e)
    with 1 p1 show ?thesis by (simp add: bnd_def)
  next
    case (Inr a)
    obtain r2 s2 where 2: "f a s1 = (r2, s2)" by (cases "f a s1")
    from extends_traceD[OF assms(2) 2] p1 have "prefix (snd s) (snd s2)"
      by (rule prefix_order.order_trans[rotated])
    with 1 Inr 2 show ?thesis by (simp add: bnd_def)
  qed
qed

lemma extends_trace_try_except:
  assumes "extends_trace m" "\<And>e. extends_trace (h e)"
  shows "extends_trace (try_except m h)"
  unfolding extends_trace_def
proof
  fix s
  obtain r s1 where 1: "m s = (r, s1)" by (cases "m s") auto
  note p1 = extends_traceD[OF assms(1) 1]
  show "prefix (snd s) (snd (snd (try_except m h s)))"
  proof (cases r)
    case (Inr a)
    with 1 p1 show ?thesis by (simp add: try_except_def)
  next
    case (Inl e)
    obtain r2 s2 where 2: "h e s1 = (r2, s2)" by (cases "h e s1")
    from extends_traceD[OF assms(2) 2] p1 have "prefix (snd s) (snd s2)"
      by (rule prefix_order.order_trans[rotated])
    with 1 Inl 2 show ?thesis by (simp add: try_except_def)
  qed
qed

lemma extends_trace_if:
  "extends_trace m1 \<Longrightarrow> extends_trace m2 \<Longrightarrow> extends_trace (if b then m1 else m2)"
  by simp

lemmas extends_trace_rules =
  extends_trace_bnd extends_trace_try_except extends_trace_if extends_trace_ret
  extends_trace_raise extends_trace_lift extends_trace_load_global extends_trace_emit
  extends_trace_ask

lemma while_true_extends:
  assumes "\<And>v. extends_trace (body v)"
  shows "prefix (snd s) (snd (snd (while_true n body v s)))"
proof (induction n arbitrary: v s)
  case 0
  show ?case by simp
next
  case (Suc n)
  obtain r s' where b: "body v s = (r, s')" by (cases "body v s") auto
  note p = extends_traceD[OF assms b]
  show ?case
  proof (cases r)
    case (Inl e)
    with b p show ?thesis by simp
  next
    case (Inr x)
    show ?thesis
    proof (cases x)
      case (Inl a)
      with b p Inr show ?thesis by simp
    next
      case (Inr v')
      from Suc.IH[of s' v'] p have "prefix (snd s) (snd (snd (while_true n body v' s')))"
        by (rule prefix_order.order_trans[rotated])
      with b \<open>r = Inr x\<close> Inr show ?thesis by simp
    qed
  qed
qed

lemma and_then_extends:
  assumes "\<And>a. extends_trace (f a)"
  shows "prefix (snd (snd r)) (snd (snd (and_then r f)))"
proof -
  obtain o1 s where r: "r = (o1, s)" by (cases r)
  show ?thesis
  proof (cases o1)
    case None
    with r show ?thesis by (simp add: and_then_def)
  next
    case (Some x)
    show ?thesis
    proof (cases x)
      case (Inl e)
      with r Some show ?thesis by (simp add: and_then_def)
    next
      case (Inr a)
      obtain r2 s2 where 2: "f a s = (r2, s2)" by (cases "f a s")
      from extends_traceD[OF assms 2] r Some Inr 2 show ?thesis by (simp add: and_then_def)
    qed
  qed
qed

subsection \<open>Requests that the world answers\<close>

lemma subscription_id_run:
  assumes "''AzureCliCredential'' \<in> set ns" "''SubscriptionClient'' \<in> set ns"
    and "ext_subscriptions W w = (Inr subs, w1)"
    and "if subscription = JNull then subs \<noteq> [] \<and> hd subs = sub
         else find (\<lambda>s. JStr (fst s) = subscription) subs = Some sub"
  shows "subscription_id ns W subscription (w, tr) = (Inr (snd sub), (w1, tr @ [SubscriptionsList]))"
  using assms
  by (cases subs)
     (auto simp: subscription_id_def bnd_def load_global_def credential_def ret_def ask_def
       split: if_splits)

lemma connection_string_run:
  assumes "''StorageManagementClient'' \<in> set ns" "''AzureCliCredential'' \<in> set ns"
    "''SubscriptionClient'' \<in> set ns"
    and "ext_subscriptions W w = (Inr subs, w1)"
    and "if subscription = JNull then subs \<noteq> [] \<and> hd subs = sub
         else find (\<lambda>s. JStr (fst s) = subscription) subs = Some sub"
    and "ext_list_keys W (snd sub) resource_group storage_account w1 = (Inr (k # ks), w2)"
  shows "connection_string ns W subscription resource_group storage_account (w, tr) =
         (Inr (''DefaultEndpointsProtocol=https;AccountName='' @ storage_account
               @ '';AccountKey='' @ k),
          (w2, tr @ [SubscriptionsList, ListKeys (snd sub) resource_group storage_account]))"
  using assms(1,2,6) subscription_id_run[OF assms(2,3,4,5)]
  by (simp add: connection_string_def get_storage_account_access_key_def bnd_def
      load_global_def credential_def ret_def ask_def)

lemma graph_request_run:
  assumes "''AzureCliCredential'' \<in> set ns"
    and "ext_get_token W GRAPH_BASE_URL w = (Inr token, w1)"
    and "ext_http W m (GRAPH_BASE_URL @ ''/v1.0/'' @ endpoint) token body w1 = (r, w2)"
  shows "graph_request ns W m endpoint body (w, tr) =
         (r, (w2, tr @ [GetToken GRAPH_BASE_URL,
                        Http m (GRAPH_BASE_URL @ ''/v1.0/'' @ endpoint) body]))"
  using assms
  by (simp add: graph_request_def graph_headers_def credential_def load_global_def bnd_def
      ask_def ret_def)


section \<open>Names the module reads and never binds\<close>

lemma module_namespace_mono: "set (module_namespace k) \<subseteq> set (module_namespace 5)"
proof -
  have "take 5 optional_imports = optional_imports"
    by (simp add: optional_imports_def)
  moreover have "set (take k optional_imports) \<subseteq> set optional_imports"
    by (rule set_take_subset)
  ultimately show ?thesis
    unfolding module_namespace_def module_globals_def by auto
qed

lemma unbound_names:
  "''subscription'' \<notin> set (module_namespace k)"
  "''resource_group'' \<notin> set (module_namespace k)"
  "''AzureHttpError'' \<notin> set (module_namespace k)"
  "''_azure_cli'' \<notin> set (module_namespace k)"
  "''HttpResponseError'' \<notin> set (module_namespace k)"
  "''CloudError'' \<notin> set (module_namespace k)"
  "''account'' \<notin> set (module_namespace k)"
proof -
  have a: "''subscription'' \<notin> set (module_namespace 5)"
    by (simp add: module_namespace_def module_globals_def python_builtins_def optional_imports_def)
  have b: "''resource_group'' \<notin> set (module_namespace 5)"
    by (simp add: module_namespace_def module_globals_def python_builtins_def optional_imports_def)
  have c: "''AzureHttpError'' \<notin> set (module_namespace 5)"
    by (simp add: module_namespace_def module_globals_def python_builtins_def optional_imports_def)
  have d: "''_azure_cli'' \<notin> set (module_namespace 5)"
    by (simp add: module_namespace_def module_globals_def python_builtins_def optional_imports_def)
  have e: "''HttpResponseError'' \<notin> set (module_namespace 5)"
    by (simp add: module_namespace_def module_globals_def python_builtins_def optional_imports_def)
  have f: "''CloudError'' \<notin> set (module_namespace 5)"
    by (simp add: module_namespace_def module_globals_def python_builtins_def optional_imports_def)
  have g: "''account'' \<notin> set (module_namespace 5)"
    by (simp add: module_namespace_def module_globals_def python_builtins_def optional_imports_def)
  show "''subscription'' \<notin> set (module_namespace k)" using a module_namespace_mono[of k] by blast
  show "''resource_group'' \<notin> set (module_namespace k)" using b module_namespace_mono[of k] by blast
  show "''AzureHttpError'' \<notin> set (module_namespace k)" using c module_namespace_mono[of k] by blast
  show "''_azure_cli'' \<notin> set (module_namespace k)" using d module_namespace_mono[of k] by blast
  show "''HttpResponseError'' \<notin> set (module_namespace k)" using e module_namespace_mono[of k] by blast
  show "''CloudError'' \<notin> set (module_namespace k)" using f module_namespace_mono[of k] by blast
  show "''account'' \<notin> set (module_namespace k)" using g module_namespace_mono[of k] by blast
qed

lemma bound_imports:
  "1 \<le> k \<Longrightarrow> ''AzureCliCredential'' \<in> set (module_namespace k)"
  "2 \<le> k \<Longrightarrow> ''SubscriptionClient'' \<in> set (module_namespace k)"
  "4 \<le> k \<Longrightarrow> ''StorageManagementClient'' \<in> set (module_namespace k)"
  "5 \<le> k \<Longrightarrow> ''BlobServiceClient'' \<in> set (module_namespace k)"
proof -
  have sub: "set (take m optional_imports) \<subseteq> set (module_namespace k)" if "m \<le> k" for m
    using set_take_subset_set_take[OF that, of optional_imports]
    by (auto simp: module_namespace_def module_globals_def)
  show "1 \<le> k \<Longrightarrow> ''AzureCliCredential'' \<in> set (module_namespace k)"
    using sub[of 1] by (simp add: optional_imports_def)
  show "2 \<le> k \<Longrightarrow> ''SubscriptionClient'' \<in> set (module_namespace k)"
    using sub[of 2] by (simp add: optional_imports_def numeral_2_eq_2)
  show "4 \<le> k \<Longrightarrow> ''StorageManagementClient'' \<in> set (module_namespace k)"
    using sub[of 4] by (simp add: optional_imports_def eval_nat_numeral)
  show "5 \<le> k \<Longrightarrow> ''BlobServiceClient'' \<in> set (module_namespace k)"
    using sub[of 5] by (simp add: optional_imports_def eval_nat_numeral)
qed


section \<open>\<^verbatim>\<open>storage_container_upload_folder\<close>\<close>

lemma upload_attempt_unbound:
  assumes "''subscription'' \<notin> set ns" "''AzureHttpError'' \<notin> set ns"
  shows "upload_attempt ns W py37 storage_name container_name source_folder tree (w, tr) =
     (Inl (NameError ''AzureHttpError''),
      (w, tr @ [Print ''Waiting on Azure access activation... please wait.'', Sleep 60]))"
  using assms
  by (simp add: upload_attempt_def try_finally_def try_except_def bnd_def load_global_def
      raise_def emit_def ret_def)

lemma upload_folder_unbound:
  assumes "''subscription'' \<notin> set ns" "''AzureHttpError'' \<notin> set ns"
  shows "storage_container_upload_folder ns W py37 storage_name container_name source_folder tree (w, tr) =
     (Inl (NameError ''AzureHttpError''),
      (w, tr @ [Print ''Waiting on Azure access activation... please wait.'', Sleep 60]))"
proof -
  have five: "(5::nat) = Suc 4" by simp
  show ?thesis
    unfolding storage_container_upload_folder_def five upload_attempts.simps
    by (simp add: bnd_def upload_attempt_unbound[OF assms])
qed

text \<open>
  Claim C9. The body of \<^verbatim>\<open>storage_container_upload_folder\<close> reads the names
  \<^verbatim>\<open>subscription\<close>, \<^verbatim>\<open>resource_group\<close> and \<^verbatim>\<open>AzureHttpError\<close>, and the module binds
  none of them (whichever of its guarded imports succeeded). So for every input and
  every world the first round raises \<^verbatim>\<open>NameError\<close>: the read of \<^verbatim>\<open>subscription\<close>
  fails before \<^verbatim>\<open>_upload_batch\<close> is called, the handler's read of
  \<^verbatim>\<open>AzureHttpError\<close> fails in turn, the \<^verbatim>\<open>finally\<close> block prints and sleeps 60
  seconds, and the error leaves the function. No request reaches the world (its state
  is unchanged) and no second round starts.
\<close>

theorem upload_folder_raises_name_error:
  "''subscription'' \<notin> set (module_namespace k) \<and>
   ''resource_group'' \<notin> set (module_namespace k) \<and>
   ''AzureHttpError'' \<notin> set (module_namespace k) \<and>
   storage_container_upload_folder (module_namespace k) W py37 storage_name container_name
     source_folder tree (w, tr) =
     (Inl (NameError ''AzureHttpError''),
      (w, tr @ [Print ''Waiting on Azure access activation... please wait.'', Sleep 60]))"
  by (simp add: upload_folder_unbound unbound_names)

text \<open>
  The retry loop as it would run if the three names were bound: against a world whose
  uploads all fail with Azure's transient error, five rounds, a 60 second sleep after
  each, then the fatal error.
\<close>

lemma upload_folder_five_rounds_if_bound:
  "fst (storage_container_upload_folder
          (''subscription'' # ''resource_group'' # ''AzureHttpError'' # module_namespace 5)
          failing_upload_world False ''acct'' ''c'' [''build''] sample_tree (0, [])) =
     Inl (RuntimeError ''Not able to upload folder to blob storage container.'' None)
   \<and> length (filter (\<lambda>ev. ev = Sleep 60)
        (snd (snd (storage_container_upload_folder
          (''subscription'' # ''resource_group'' # ''AzureHttpError'' # module_namespace 5)
          failing_upload_world False ''acct'' ''c'' [''build''] sample_tree (0, []))))) = 5
   \<and> length (filter is_upload
        (snd (snd (storage_container_upload_folder
          (''subscription'' # ''resource_group'' # ''AzureHttpError'' # module_namespace 5)
          failing_upload_world False ''acct'' ''c'' [''build''] sample_tree (0, []))))) = 5"
  by code_simp


text \<open>
  Claim C2 (the code departs from it). Against the same world the module as written
  makes no upload attempt at all: the first round ends in \<^verbatim>\<open>NameError\<close> after one
  sleep, and the world has received no request.
\<close>

theorem upload_folder_transient_failures:
  "storage_container_upload_folder (module_namespace 5) failing_upload_world True ''acct'' ''c''
     [''build''] sample_tree (0, []) =
   (Inl (NameError ''AzureHttpError''),
    (0, [Print ''Waiting on Azure access activation... please wait.'', Sleep 60]))"
  by (simp add: upload_folder_unbound[OF unbound_names(1) unbound_names(3)])


section \<open>\<^verbatim>\<open>_upload_batch\<close>\<close>

lemma rglob_append:
  "rglob (p @ q) t = map (\<lambda>(r, n). (p @ r, n)) (rglob q t)"
  "rglob_subdirs (p @ q) es = map (\<lambda>(r, n). (p @ r, n)) (rglob_subdirs q es)"
  by (induction q t and q es rule: rglob_rglob_subdirs.induct)
     (simp_all add: case_prod_unfold)

lemma paths_to_upload_prefix:
  "paths_to_upload source_folder tree = map ((@) source_folder) (paths_to_upload [] tree)"
proof -
  have "rglob source_folder tree = map (\<lambda>(r, n). (source_folder @ r, n)) (rglob [] tree)"
    using rglob_append(1)[of source_folder "[]" tree] by simp
  then show ?thesis
    by (simp add: paths_to_upload_def filter_map comp_def case_prod_unfold)
qed

text \<open>The paths that \<^verbatim>\<open>rglob\<close> yields for files are the files below the folder, each once.\<close>

lemma mset_rglob_files:
  "mset (map fst (filter (\<lambda>(q, n). is_file n) (rglob p t))) = mset (map ((@) p) (files_below t))"
  "mset (map fst (filter (\<lambda>(q, n). is_file n)
           (map (\<lambda>(n, c). (p @ [n], c)) es @ rglob_subdirs p es)))
   = mset (map ((@) p) (files_in es))"
proof (induction t and es arbitrary: p and p rule: files_below_files_in.induct)
  case (5 n c es)
  have "map ((@) p) (map ((#) n) (files_below c)) = map ((@) (p @ [n])) (files_below c)"
    by simp
  with 5(1)[of "p @ [n]"] 5(2)[of p] show ?case
    by (auto simp: is_file_def comp_def ac_simps)
qed simp_all

lemma mset_paths_to_upload:
  "mset (paths_to_upload [] tree) = mset (files_below tree)"
proof -
  have "map ((@) []) (files_below tree) = files_below tree"
    by (induction "files_below tree") (simp_all add: map_idI)
  with mset_rglob_files(1)[of "[]" tree] show ?thesis
    by (simp add: paths_to_upload_def)
qed

lemma length_files_below:
  "length (files_below t) = count_files t"
  "length (files_in es) = count_files_in es"
  by (induction t and es rule: files_below_files_in.induct) simp_all

subsection \<open>What a batch that returns has uploaded\<close>

lemma upload_file_ok:
  assumes "upload_file W conn c base (base @ rel) s = (Inr u, s')"
  shows "snd s' = snd s @ [OpenFile (base @ rel), UploadBlob conn c (as_posix rel) (base @ rel)]"
  using assms
  by (auto simp: upload_file_def bnd_def ask_def lift_def relative_to_def
      split: prod.splits sum.splits)

lemma upload_each_ok:
  assumes "upload_each W conn c base (map ((@) base) rels) s = (Inr u, s')"
  shows "filter is_upload (snd s') =
         filter is_upload (snd s) @ map (\<lambda>rel. UploadBlob conn c (as_posix rel) (base @ rel)) rels"
  using assms
proof (induction rels arbitrary: s)
  case Nil
  then show ?case by (simp add: ret_def)
next
  case (Cons rel rels)
  from Cons.prems obtain a s1 where
    1: "upload_file W conn c base (base @ rel) s = (Inr a, s1)" and
    2: "upload_each W conn c base (map ((@) base) rels) s1 = (Inr u, s')"
    by (auto elim: bnd_InrD)
  from upload_file_ok[OF 1] Cons.IH[OF 2] show ?case by simp
qed

lemma upload_tasks_ok:
  assumes "upload_tasks W conn c base (map ((@) base) rels) s = (Inr u, s')"
  shows "filter is_upload (snd s') =
         filter is_upload (snd s) @ map (\<lambda>rel. UploadBlob conn c (as_posix rel) (base @ rel)) rels"
  using assms
proof (induction rels arbitrary: s)
  case Nil
  then show ?case by simp
next
  case (Cons rel rels)
  from Cons.prems obtain a s1 where
    1: "upload_file W conn c base (base @ rel) s = (Inr a, s1)" and
    2: "upload_tasks W conn c base (map ((@) base) rels) s1 = (Inr u, s')"
    by (auto split: prod.splits sum.splits)
  from upload_file_ok[OF 1] Cons.IH[OF 2] show ?case by simp
qed

lemma upload_batch_uploads:
  assumes "upload_batch ns W py37 subscription resource_group storage_name container_name
             source_folder tree s = (Inr u, s')"
  shows "\<exists>conn. filter is_upload (snd s') = filter is_upload (snd s) @
           map (\<lambda>rel. UploadBlob conn container_name (as_posix rel) (source_folder @ rel))
             (paths_to_upload [] tree)"
proof -
  let ?pre = "\<lambda>m1 m2. bnd (import_module W m1) (\<lambda>_. bnd (import_module W m2) (\<lambda>_.
       connection_string ns W subscription resource_group storage_name))"
  have quiet: "adds_none is_upload (?pre m1 m2)" for m1 m2
    by (intro adds_none_rules adds_none_import_module adds_none_connection_string) simp_all
  show ?thesis
  proof (cases py37)
    case True
    with assms have "bnd (?pre ''tqdm.asyncio'' ''azure.storage.blob.aio'')
        (\<lambda>conn. upload_tasks W conn container_name source_folder
            (paths_to_upload source_folder tree)) s = (Inr u, s')"
      by (simp add: upload_batch_def bnd_assoc)
    then obtain conn s1 where
      1: "?pre ''tqdm.asyncio'' ''azure.storage.blob.aio'' s = (Inr conn, s1)" and
      2: "upload_tasks W conn container_name source_folder
            (paths_to_upload source_folder tree) s1 = (Inr u, s')"
      by (rule bnd_InrD)
    from 2 have 3: "upload_tasks W conn container_name source_folder
            (map ((@) source_folder) (paths_to_upload [] tree)) s1 = (Inr u, s')"
      using paths_to_upload_prefix[of source_folder tree] by simp
    from adds_noneD[OF quiet 1] upload_tasks_ok[OF 3]
    show ?thesis by auto
  next
    case False
    with assms have "bnd (?pre ''tqdm'' ''azure.storage.blob'')
        (\<lambda>conn. upload_each W conn container_name source_folder
            (paths_to_upload source_folder tree)) s = (Inr u, s')"
      by (simp add: upload_batch_def bnd_assoc)
    then obtain conn s1 where
      1: "?pre ''tqdm'' ''azure.storage.blob'' s = (Inr conn, s1)" and
      2: "upload_each W conn container_name source_folder
            (paths_to_upload source_folder tree) s1 = (Inr u, s')"
      by (rule bnd_InrD)
    from 2 have 3: "upload_each W conn container_name source_folder
            (map ((@) source_folder) (paths_to_upload [] tree)) s1 = (Inr u, s')"
      using paths_to_upload_prefix[of source_folder tree] by simp
    from adds_noneD[OF quiet 1] upload_each_ok[OF 3]
    show ?thesis by auto
  qed
qed

lemma upload_batch_blobs:
  assumes "upload_batch ns W py37 subscription resource_group storage_name container_name
             source_folder tree (w, []) = (Inr (), (w', tr))"
  shows "mset (uploaded_blobs tr) = mset (map as_posix (files_below tree))"
    and "mset (uploaded_files tr) = mset (map ((@) source_folder) (files_below tree))"
proof -
  from upload_batch_uploads[OF assms] obtain conn where
    u: "filter is_upload tr =
       map (\<lambda>rel. UploadBlob conn container_name (as_posix rel) (source_folder @ rel))
         (paths_to_upload [] tree)"
    by auto
  have b: "uploaded_blobs tr = map as_posix (paths_to_upload [] tree)"
    and f: "uploaded_files tr = map ((@) source_folder) (paths_to_upload [] tree)"
    using u by (simp_all add: uploaded_files_def uploaded_blobs_def comp_def)
  show "mset (uploaded_blobs tr) = mset (map as_posix (files_below tree))"
    unfolding b using mset_paths_to_upload[of tree] by (metis mset_map)
  show "mset (uploaded_files tr) = mset (map ((@) source_folder) (files_below tree))"
    unfolding f using mset_paths_to_upload[of tree] by (metis mset_map)
qed

subsection \<open>A batch against a world that answers\<close>

lemma upload_file_run:
  assumes "\<And>path v. fst (ext_open_file W path v) = Inr ()"
    and "\<And>conn c blob path v. fst (ext_upload_blob W conn c blob path v) = Inr ()"
  shows "\<exists>s'. upload_file W conn c base (base @ rel) s = (Inr (), s')"
proof -
  obtain v1 where 1: "ext_open_file W (base @ rel) (fst s) = (Inr (), v1)"
    using assms(1)[of "base @ rel" "fst s"] by (cases "ext_open_file W (base @ rel) (fst s)") auto
  obtain v2 where 2: "ext_upload_blob W conn c (as_posix rel) (base @ rel) v1 = (Inr (), v2)"
    using assms(2)[of conn c "as_posix rel" "base @ rel" v1]
    by (cases "ext_upload_blob W conn c (as_posix rel) (base @ rel) v1") auto
  show ?thesis
    using 1 2 by (simp add: upload_file_def bnd_def ask_def lift_def relative_to_def)
qed

lemma upload_each_run:
  assumes "\<And>path v. fst (ext_open_file W path v) = Inr ()"
    and "\<And>conn c blob path v. fst (ext_upload_blob W conn c blob path v) = Inr ()"
  shows "\<exists>s'. upload_each W conn c base (map ((@) base) rels) s = (Inr (), s')"
proof (induction rels arbitrary: s)
  case Nil
  show ?case by (simp add: ret_def)
next
  case (Cons rel rels)
  from upload_file_run[OF assms] obtain s1 where
    1: "upload_file W conn c base (base @ rel) s = (Inr (), s1)" by blast
  from Cons.IH[of s1] 1 show ?case by (simp add: bnd_def)
qed

lemma upload_tasks_run:
  assumes "\<And>path v. fst (ext_open_file W path v) = Inr ()"
    and "\<And>conn c blob path v. fst (ext_upload_blob W conn c blob path v) = Inr ()"
  shows "\<exists>s'. upload_tasks W conn c base (map ((@) base) rels) s = (Inr (), s')"
proof (induction rels arbitrary: s)
  case Nil
  show ?case by simp
next
  case (Cons rel rels)
  from upload_file_run[OF assms] obtain s1 where
    1: "upload_file W conn c base (base @ rel) s = (Inr (), s1)" by blast
  from Cons.IH[of s1] 1 show ?case by auto
qed

lemma upload_batch_run:
  assumes "''StorageManagementClient'' \<in> set ns" "''AzureCliCredential'' \<in> set ns"
    "''SubscriptionClient'' \<in> set ns"
    and "ext_importable W ''tqdm.asyncio''" "ext_importable W ''azure.storage.blob.aio''"
    "ext_importable W ''tqdm''" "ext_importable W ''azure.storage.blob''"
    and "ext_subscriptions W w = (Inr subs, w1)"
    and "if subscription = JNull then subs \<noteq> [] \<and> hd subs = sub
         else find (\<lambda>s. JStr (fst s) = subscription) subs = Some sub"
    and "ext_list_keys W (snd sub) resource_group storage_name w1 = (Inr (k # ks), w2)"
    and opens: "\<And>path v. fst (ext_open_file W path v) = Inr ()"
    and uploads: "\<And>conn c blob path v. fst (ext_upload_blob W conn c blob path v) = Inr ()"
  shows "\<exists>s'. upload_batch ns W py37 subscription resource_group storage_name container_name
             source_folder tree (w, tr) = (Inr (), s')"
proof -
  note cs = connection_string_run[OF assms(1,2,3,8,9,10)]
  note pre = paths_to_upload_prefix[of source_folder tree]
  show ?thesis
  proof (cases py37)
    case True
    from upload_tasks_run[OF opens uploads] obtain s' where
      "upload_tasks W (''DefaultEndpointsProtocol=https;AccountName='' @ storage_name
               @ '';AccountKey='' @ k) container_name source_folder
         (map ((@) source_folder) (paths_to_upload [] tree))
         (w2, tr @ [ImportModule ''tqdm.asyncio'', ImportModule ''azure.storage.blob.aio'',
                    SubscriptionsList, ListKeys (snd sub) resource_group storage_name])
       = (Inr (), s')" by blast
    with True assms(4,5) cs pre show ?thesis
      by (simp add: upload_batch_def import_module_def bnd_def ask_def)
  next
    case False
    from upload_each_run[OF opens uploads] obtain s' where
      "upload_each W (''DefaultEndpointsProtocol=https;AccountName='' @ storage_name
               @ '';AccountKey='' @ k) container_name source_folder
         (map ((@) source_folder) (paths_to_upload [] tree))
         (w2, tr @ [ImportModule ''tqdm'', ImportModule ''azure.storage.blob'',
                    SubscriptionsList, ListKeys (snd sub) resource_group storage_name])
       = (Inr (), s')" by blast
    with False assms(6,7) cs pre show ?thesis
      by (simp add: upload_batch_def import_module_def bnd_def ask_def)
  qed
qed

text \<open>
  Claim C5. Take a world in which the storage client can be built (the SDK classes are
  bound, the modules imported in the function are installed, the subscription is
  listed and the account has a key) and in which opening a file and uploading a blob
  succeed. Then for every source folder, on either branch of the version test, one
  upload batch returns normally, and what it has uploaded is exactly the files that
  the folder contains at any depth, each once: as many uploads as the folder has
  files, and the blob names are the POSIX forms of the files' paths relative to the
  folder, so the set of blob names is the set of those relative paths.
\<close>

theorem upload_batch_blob_names:
  assumes "''StorageManagementClient'' \<in> set ns" "''AzureCliCredential'' \<in> set ns"
    "''SubscriptionClient'' \<in> set ns"
    and "ext_importable W ''tqdm.asyncio''" "ext_importable W ''azure.storage.blob.aio''"
    "ext_importable W ''tqdm''" "ext_importable W ''azure.storage.blob''"
    and "ext_subscriptions W w = (Inr subs, w1)"
    and "if subscription = JNull then subs \<noteq> [] \<and> hd subs = sub
         else find (\<lambda>s. JStr (fst s) = subscription) subs = Some sub"
    and "ext_list_keys W (snd sub) resource_group storage_name w1 = (Inr (k # ks), w2)"
    and "\<And>path v. fst (ext_open_file W path v) = Inr ()"
    and "\<And>conn c blob path v. fst (ext_upload_blob W conn c blob path v) = Inr ()"
  shows "\<exists>w' tr.
           upload_batch ns W py37 subscription resource_group storage_name container_name
             source_folder tree (w, []) = (Inr (), (w', tr))
         \<and> mset (uploaded_files tr) = mset (map ((@) source_folder) (files_below tree))
         \<and> length (uploaded_files tr) = count_files tree
         \<and> mset (uploaded_blobs tr) = mset (map as_posix (files_below tree))
         \<and> set (uploaded_blobs tr) = as_posix ` set (files_below tree)"
proof -
  from upload_batch_run[OF assms, of py37 container_name source_folder tree "[]"]
  obtain w' tr where run: "upload_batch ns W py37 subscription resource_group storage_name
      container_name source_folder tree (w, []) = (Inr (), (w', tr))"
    by auto
  note b = upload_batch_blobs(1)[OF run] and f = upload_batch_blobs(2)[OF run]
  have n: "length (uploaded_files tr) = count_files tree"
    using mset_eq_length[OF f] by (simp add: length_files_below)
  have s: "set (uploaded_blobs tr) = as_posix ` set (files_below tree)"
    using mset_eq_setD[OF b] by simp
  from run b f n s show ?thesis by blast
qed

theorem upload_batch_blob_names_witness:
  "(\<exists>w' tr.
      upload_batch (module_namespace 5) sample_world False (JStr ''Sub'') (JStr ''rg'') ''acct''
        ''c'' [''build''] sample_tree (0, []) = (Inr (), (w', tr))
    \<and> mset (uploaded_files tr) = mset (map ((@) [''build'']) (files_below sample_tree))
    \<and> length (uploaded_files tr) = count_files sample_tree
    \<and> mset (uploaded_blobs tr) = mset (map as_posix (files_below sample_tree))
    \<and> set (uploaded_blobs tr) = as_posix ` set (files_below sample_tree))
   \<and> (\<exists>w' tr.
      upload_batch (module_namespace 5) sample_world True (JStr ''Sub'') (JStr ''rg'') ''acct''
        ''c'' [''build''] sample_tree (0, []) = (Inr (), (w', tr))
    \<and> mset (uploaded_files tr) = mset (map ((@) [''build'']) (files_below sample_tree))
    \<and> length (uploaded_files tr) = count_files sample_tree
    \<and> mset (uploaded_blobs tr) = mset (map as_posix (files_below sample_tree))
    \<and> set (uploaded_blobs tr) = as_posix ` set (files_below sample_tree))
   \<and> count_files sample_tree = 3
   \<and> as_posix ` set (files_below sample_tree) =
       {''index.html'', ''assets/app.js'', ''assets/img/logo.png''}
   \<and> uploaded_blobs (snd (snd (upload_batch (module_namespace 5) sample_world False
        (JStr ''Sub'') (JStr ''rg'') ''acct'' ''c'' [''build''] sample_tree (0, [])))) =
       [''index.html'', ''assets/app.js'', ''assets/img/logo.png'']"
proof -
  have names: "''StorageManagementClient'' \<in> set (module_namespace 5)"
    "''AzureCliCredential'' \<in> set (module_namespace 5)"
    "''SubscriptionClient'' \<in> set (module_namespace 5)"
    by (simp_all add: bound_imports)
  have mods: "ext_importable sample_world ''tqdm.asyncio''"
    "ext_importable sample_world ''azure.storage.blob.aio''"
    "ext_importable sample_world ''tqdm''" "ext_importable sample_world ''azure.storage.blob''"
    by (simp_all add: sample_world_def)
  have subs: "ext_subscriptions sample_world 0 = (Inr [(''Sub'', ''sid-1'')], 1)"
    by (simp add: sample_world_def)
  have sub: "if JStr ''Sub'' = JNull then [(''Sub'', ''sid-1'')] \<noteq> [] \<and>
               hd [(''Sub'', ''sid-1'')] = (''Sub'', ''sid-1'')
             else find (\<lambda>s. JStr (fst s) = JStr ''Sub'') [(''Sub'', ''sid-1'')] = Some (''Sub'', ''sid-1'')"
    by simp
  have keys: "ext_list_keys sample_world (snd (''Sub'', ''sid-1'')) (JStr ''rg'') ''acct'' 1 =
      (Inr (''key-1'' # []), 2)"
    by (simp add: sample_world_def)
  have opens: "\<And>path v. fst (ext_open_file sample_world path v) = Inr ()"
    by (simp add: sample_world_def)
  have uploads: "\<And>conn c blob path v. fst (ext_upload_blob sample_world conn c blob path v) = Inr ()"
    by (simp add: sample_world_def)
  note inst = upload_batch_blob_names[OF names mods subs sub keys opens uploads]
  have n: "count_files sample_tree = 3"
    by (simp add: sample_tree_def)
  have fs: "as_posix ` set (files_below sample_tree) =
       {''index.html'', ''assets/app.js'', ''assets/img/logo.png''}"
    by (auto simp: sample_tree_def)
  have ev: "uploaded_blobs (snd (snd (upload_batch (module_namespace 5) sample_world False
        (JStr ''Sub'') (JStr ''rg'') ''acct'' ''c'' [''build''] sample_tree (0, [])))) =
       [''index.html'', ''assets/app.js'', ''assets/img/logo.png'']"
    by code_simp
  from inst[of False "''c''" "[''build'']" sample_tree] inst[of True "''c''" "[''build'']" sample_tree]
    n fs ev
  show ?thesis by blast
qed

subsection \<open>No blob is written twice\<close>

lemma as_posix_split:
  assumes "list_all plain_name p" "p \<noteq> []"
  shows "takeWhile (\<lambda>x. x \<noteq> CHR ''/'') (as_posix p) = hd p"
    and "dropWhile (\<lambda>x. x \<noteq> CHR ''/'') (as_posix p) =
         (if tl p = [] then [] else CHR ''/'' # as_posix (tl p))"
proof -
  obtain c cs where p: "p = c # cs" using assms(2) by (cases p) auto
  with assms(1) have c: "\<forall>x\<in>set c. x \<noteq> CHR ''/''" by (auto simp: plain_name_def)
  show "takeWhile (\<lambda>x. x \<noteq> CHR ''/'') (as_posix p) = hd p"
    using p c by (cases cs) (simp_all add: takeWhile_append2)
  show "dropWhile (\<lambda>x. x \<noteq> CHR ''/'') (as_posix p) =
         (if tl p = [] then [] else CHR ''/'' # as_posix (tl p))"
    using p c by (cases cs) (simp_all add: dropWhile_append2)
qed

lemma as_posix_inj:
  assumes "list_all plain_name p" "list_all plain_name q" "p \<noteq> []" "q \<noteq> []"
    and "as_posix p = as_posix q"
  shows "p = q"
  using assms
proof (induction p arbitrary: q)
  case Nil
  then show ?case by simp
next
  case (Cons c cs)
  then obtain d ds where q: "q = d # ds" by (cases q) auto
  have pq: "list_all plain_name (d # ds)" and eq0: "as_posix (c # cs) = as_posix (d # ds)"
    using Cons.prems(2,5) q by simp_all
  have "takeWhile (\<lambda>x. x \<noteq> CHR ''/'') (as_posix (c # cs)) = c"
    using as_posix_split(1)[OF Cons.prems(1)] by simp
  moreover have "takeWhile (\<lambda>x. x \<noteq> CHR ''/'') (as_posix (d # ds)) = d"
    using as_posix_split(1)[OF pq] by simp
  ultimately have hd: "c = d" using eq0 by simp
  have "dropWhile (\<lambda>x. x \<noteq> CHR ''/'') (as_posix (c # cs)) =
          (if cs = [] then [] else CHR ''/'' # as_posix cs)"
    using as_posix_split(2)[OF Cons.prems(1)] by simp
  moreover have "dropWhile (\<lambda>x. x \<noteq> CHR ''/'') (as_posix (d # ds)) =
          (if ds = [] then [] else CHR ''/'' # as_posix ds)"
    using as_posix_split(2)[OF pq] by simp
  ultimately have tl: "(if cs = [] then [] else CHR ''/'' # as_posix cs) =
            (if ds = [] then [] else CHR ''/'' # as_posix ds)" using eq0 by simp
  show ?case
  proof (cases "cs = []")
    case True
    with tl have "ds = []" by (auto split: if_splits)
    with True hd q show ?thesis by simp
  next
    case False
    with tl have ds: "ds \<noteq> []" and eq: "as_posix cs = as_posix ds" by (auto split: if_splits)
    from Cons.prems(1,2) q have "list_all plain_name cs" "list_all plain_name ds" by simp_all
    from Cons.IH[OF this False ds eq] hd q show ?thesis by simp
  qed
qed

lemma files_plain:
  "well_formed t \<Longrightarrow> p \<in> set (files_below t) \<Longrightarrow> list_all plain_name p \<and> p \<noteq> []"
  "well_formed_entries es \<Longrightarrow> p \<in> set (files_in es) \<Longrightarrow>
     list_all plain_name p \<and> p \<noteq> [] \<and> hd p \<in> set (map fst es)"
  by (induction t and es arbitrary: p and p rule: files_below_files_in.induct)
     (auto split: if_splits)

lemma files_distinct:
  "well_formed t \<Longrightarrow> distinct (files_below t)"
  "well_formed_entries es \<Longrightarrow> distinct (map fst es) \<Longrightarrow> distinct (files_in es)"
proof (induction t and es rule: files_below_files_in.induct)
  case (5 n c es)
  have d1: "distinct (map ((#) n) (files_below c))"
    using 5 by (simp add: distinct_map)
  have d2: "distinct (files_in es)" using 5 by simp
  have other: "n # x \<notin> set (files_in es)" for x
    using files_plain(2)[of es "n # x"] 5 by auto
  have leaf: "files_below c = []" if "c = File" using that by simp
  show ?case using d1 d2 other leaf by (auto split: if_splits)
qed simp_all

lemma blob_names_distinct:
  assumes "well_formed t"
  shows "distinct (map as_posix (files_below t))"
proof -
  have "inj_on as_posix (set (files_below t))"
    by (rule inj_onI) (use files_plain(1)[OF assms] as_posix_inj in blast)
  with files_distinct(1)[OF assms] show ?thesis by (simp add: distinct_map)
qed

text \<open>
  For a folder as a file system holds it, a batch that returns normally has written
  each blob name once: as many distinct blobs as the folder has files.
\<close>

theorem upload_batch_no_blob_twice:
  assumes "upload_batch ns W py37 subscription resource_group storage_name container_name
             source_folder tree (w, []) = (Inr (), (w', tr))"
    and "well_formed tree"
  shows "distinct (uploaded_blobs tr) \<and> card (set (uploaded_blobs tr)) = count_files tree"
proof -
  note b = upload_batch_blobs(1)[OF assms(1)]
  have "distinct (uploaded_blobs tr) = distinct (map as_posix (files_below tree))"
    using b by (rule mset_eq_imp_distinct_iff)
  with blob_names_distinct[OF assms(2)] have d: "distinct (uploaded_blobs tr)" by simp
  from d have "card (set (uploaded_blobs tr)) = length (uploaded_blobs tr)"
    by (rule distinct_card)
  moreover have "length (uploaded_blobs tr) = length (map as_posix (files_below tree))"
    using b by (rule mset_eq_length)
  ultimately show ?thesis using d by (simp add: length_files_below)
qed

theorem upload_batch_no_blob_twice_witness:
  "well_formed sample_tree
   \<and> fst (upload_batch (module_namespace 5) sample_world False (JStr ''Sub'') (JStr ''rg'')
         ''acct'' ''c'' [''build''] sample_tree (0, [])) = Inr ()
   \<and> distinct (uploaded_blobs (snd (snd (upload_batch (module_namespace 5) sample_world False
         (JStr ''Sub'') (JStr ''rg'') ''acct'' ''c'' [''build''] sample_tree (0, [])))))
   \<and> card (set (uploaded_blobs (snd (snd (upload_batch (module_namespace 5) sample_world False
         (JStr ''Sub'') (JStr ''rg'') ''acct'' ''c'' [''build''] sample_tree (0, [])))))) = 3"
proof -
  have wf: "well_formed sample_tree"
    by (simp add: sample_tree_def plain_name_def)
  have ok: "fst (upload_batch (module_namespace 5) sample_world False (JStr ''Sub'') (JStr ''rg'')
         ''acct'' ''c'' [''build''] sample_tree (0, [])) = Inr ()"
    by code_simp
  obtain r w' tr where run: "upload_batch (module_namespace 5) sample_world False (JStr ''Sub'')
      (JStr ''rg'') ''acct'' ''c'' [''build''] sample_tree (0, []) = (r, (w', tr))"
    by (metis surj_pair)
  with ok have run': "upload_batch (module_namespace 5) sample_world False (JStr ''Sub'')
      (JStr ''rg'') ''acct'' ''c'' [''build''] sample_tree (0, []) = (Inr (), (w', tr))"
    by simp
  have n: "count_files sample_tree = 3"
    by (simp add: sample_tree_def)
  from upload_batch_no_blob_twice[OF run' wf] wf ok n run' show ?thesis
    by simp
qed

section \<open>Remediation prompts\<close>

lemma is_prompt_requests [simp]:
  "\<not> is_prompt (AzCli args)" "\<not> is_prompt (GetToken scope)" "\<not> is_prompt (Http m url body)"
  "\<not> is_prompt Now" "\<not> is_prompt (TokenUrlsafe n)" "\<not> is_prompt (Sleep k)"
  by (simp_all add: is_prompt_def is_pim_notice_def)

lemma is_pim_notice_simps [simp]:
  "is_pim_notice (Print pim_notice_storage)"
  "is_pim_notice (Print pim_notice_app)"
  "\<not> is_pim_notice (Print ''New attempt of app registration in 1 minute.'')"
  "\<not> is_pim_notice (Print ''New attempt of app registration in 30 seconds.'')"
  "\<not> is_pim_notice (BrowserOpen url)"
  "\<not> is_pim_notice (Sleep k)"
  by (simp_all add: is_pim_notice_def pim_notice_storage_def pim_notice_app_def)

lemma prompt_kinds: "is_browser_open ev \<Longrightarrow> is_prompt ev" "is_pim_notice ev \<Longrightarrow> is_prompt ev"
  by (simp_all add: is_prompt_def)

lemma while_true_once:
  fixes c :: "'w st \<Rightarrow> nat"
  assumes step: "\<And>v s r s'. body v s = (r, s') \<Longrightarrow>
     c s' \<le> c s + (if v then 0 else 1) \<and> (\<forall>v'. r = Inr (Inr v') \<longrightarrow> v')"
  shows "c (snd (while_true n body v s)) \<le> c s + (if v then 0 else 1)"
proof (induction n arbitrary: v s)
  case 0
  show ?case by simp
next
  case (Suc n)
  obtain r s' where b: "body v s = (r, s')" by (cases "body v s") auto
  note st = step[OF b]
  show ?case
  proof (cases r)
    case (Inl e)
    with b st show ?thesis by simp
  next
    case (Inr x)
    show ?thesis
    proof (cases x)
      case (Inl a)
      with Inr b st show ?thesis by simp
    next
      case (Inr v')
      with \<open>r = Inr x\<close> st have v': "v'" by simp
      have "c (snd (while_true n body v' s')) \<le> c s' + (if v' then 0 else 1)"
        by (rule Suc.IH)
      with v' st have "c (snd (while_true n body v' s')) \<le> c s + (if v then 0 else 1)"
        by simp
      with Inr \<open>r = Inr x\<close> b show ?thesis by simp
    qed
  qed
qed

lemma and_then_quiet:
  assumes "\<And>a. adds_none P (f a)"
  shows "filter P (snd (snd (and_then r f))) = filter P (snd (snd r))"
proof -
  obtain o' s where r: "r = (o', s)" by (cases r) auto
  show ?thesis
  proof (cases o')
    case None
    with r show ?thesis by (simp add: and_then_def)
  next
    case (Some x)
    show ?thesis
    proof (cases x)
      case (Inl e)
      with Some r show ?thesis by (simp add: and_then_def)
    next
      case (Inr a)
      obtain r' s' where f: "f a s = (r', s')" by (cases "f a s") auto
      from adds_noneD[OF assms f] Inr Some r f show ?thesis by (simp add: and_then_def)
    qed
  qed
qed

lemma create_account_iteration_step:
  assumes "create_account_iteration ns W args opened s = (r, s')"
  shows "browser_opens (snd s') \<le> browser_opens (snd s) + (if opened then 0 else 1)"
    and "pim_notices (snd s') \<le> pim_notices (snd s) + (if opened then 0 else 1)"
    and "\<forall>v'. r = Inr (Inr v') \<longrightarrow> v'"
proof -
  let ?m = "bnd (azure_cli ns W args) (\<lambda>_. ret (Inl () :: unit + bool))"
  have q: "adds_none is_prompt ?m"
    by (intro adds_none_rules adds_none_azure_cli) simp_all
  obtain r1 s1 where m: "?m s = (r1, s1)" by (cases "?m s") auto
  have qb: "filter is_browser_open (snd s1) = filter is_browser_open (snd s)"
    using adds_noneD[OF adds_none_weaken[OF q prompt_kinds(1)] m] .
  have qn: "filter is_pim_notice (snd s1) = filter is_pim_notice (snd s)"
    using adds_noneD[OF adds_none_weaken[OF q prompt_kinds(2)] m] .
  show "browser_opens (snd s') \<le> browser_opens (snd s) + (if opened then 0 else 1)"
    using assms m qb
    by (cases r1)
       (auto simp: create_account_iteration_def try_except_def browser_opens_def bnd_def
          load_global_def ret_def raise_def emit_def split: if_splits)
  show "pim_notices (snd s') \<le> pim_notices (snd s) + (if opened then 0 else 1)"
    using assms m qn
    by (cases r1)
       (auto simp: create_account_iteration_def try_except_def pim_notices_def bnd_def
          load_global_def ret_def raise_def emit_def split: if_splits)
  have brk: "\<exists>a. x = Inl a" if "r1 = Inr x" for x
    using m that by (auto elim!: bnd_InrD simp: ret_def)
  show "\<forall>v'. r = Inr (Inr v') \<longrightarrow> v'"
    using assms m brk
    by (cases r1)
       (auto simp: create_account_iteration_def try_except_def
          load_global_def ret_def raise_def emit_def bnd_def[of "load_global ns x" for x]
          bnd_def[of "emit ev" for ev] bnd_def[of "ret a" for a]
          bnd_def[of "if b then m1 else m2" for b m1 m2] split: if_splits)
qed

lemma app_setup_iteration_step:
  assumes "app_setup_iteration ns W display_name opened s = (r, s')"
  shows "browser_opens (snd s') \<le> browser_opens (snd s) + (if opened then 0 else 1)"
    and "pim_notices (snd s') \<le> pim_notices (snd s) + (if opened then 0 else 1)"
    and "\<forall>v'. r = Inr (Inr v') \<longrightarrow> v'"
proof -
  let ?m = "bnd (create_app_registration ns W display_name) (\<lambda>app_registration_id.
        bnd (create_service_principal ns W app_registration_id) (\<lambda>(object_id, tenant_id).
          ret (Inl (app_registration_id, object_id, tenant_id) :: (json \<times> json \<times> json) + bool)))"
  have q: "adds_none is_prompt ?m"
    by (intro adds_none_rules adds_none_create_app_registration
          adds_none_create_service_principal) simp_all
  obtain r1 s1 where m: "?m s = (r1, s1)" by (cases "?m s") auto
  have qb: "filter is_browser_open (snd s1) = filter is_browser_open (snd s)"
    using adds_noneD[OF adds_none_weaken[OF q prompt_kinds(1)] m] .
  have qn: "filter is_pim_notice (snd s1) = filter is_pim_notice (snd s)"
    using adds_noneD[OF adds_none_weaken[OF q prompt_kinds(2)] m] .
  show "browser_opens (snd s') \<le> browser_opens (snd s) + (if opened then 0 else 1)"
    using assms m qb
    by (cases r1)
       (auto simp: app_setup_iteration_def try_except_def browser_opens_def bnd_def
          ret_def raise_def emit_def split: if_splits)
  show "pim_notices (snd s') \<le> pim_notices (snd s) + (if opened then 0 else 1)"
    using assms m qn
    by (cases r1)
       (auto simp: app_setup_iteration_def try_except_def pim_notices_def bnd_def
          ret_def raise_def emit_def split: if_splits)
  have brk: "\<exists>a. x = Inl a" if "r1 = Inr x" for x
    using m that by (auto elim!: bnd_InrD simp: ret_def split: prod.splits)
  show "\<forall>v'. r = Inr (Inr v') \<longrightarrow> v'"
    using assms m brk
    by (cases r1)
       (auto simp: app_setup_iteration_def try_except_def
          ret_def raise_def emit_def
          bnd_def[of "emit ev" for ev] bnd_def[of "ret a" for a]
          bnd_def[of "if b then m1 else m2" for b m1 m2] split: if_splits)
qed

lemma create_storage_account_prompts:
  "browser_opens (snd (snd (create_storage_account fuel ns W subscription resource_group name s)))
     \<le> browser_opens (snd s) + 1"
  "pim_notices (snd (snd (create_storage_account fuel ns W subscription resource_group name s)))
     \<le> pim_notices (snd s) + 1"
proof -
  let ?body = "create_account_iteration ns W (account_create_args subscription resource_group name)"
  let ?post = "\<lambda>_::unit. assign_upload_roles ns W subscription resource_group name"
  have post: "adds_none is_prompt (?post a)" for a
    by (intro adds_none_assign_upload_roles) simp
  have 1: "browser_opens (snd (snd (while_true fuel ?body False s))) \<le> browser_opens (snd s) + (if False then 0 else 1)"
  proof (rule while_true_once[where c = "\<lambda>s. browser_opens (snd s)"])
    fix v s r s'
    assume a: "?body v s = (r, s')"
    show "browser_opens (snd s') \<le> browser_opens (snd s) + (if v then 0 else 1) \<and> (\<forall>v'. r = Inr (Inr v') \<longrightarrow> v')"
      using create_account_iteration_step(1)[OF a] create_account_iteration_step(3)[OF a] by simp
  qed
  have 2: "pim_notices (snd (snd (while_true fuel ?body False s))) \<le> pim_notices (snd s) + (if False then 0 else 1)"
  proof (rule while_true_once[where c = "\<lambda>s. pim_notices (snd s)"])
    fix v s r s'
    assume a: "?body v s = (r, s')"
    show "pim_notices (snd s') \<le> pim_notices (snd s) + (if v then 0 else 1) \<and> (\<forall>v'. r = Inr (Inr v') \<longrightarrow> v')"
      using create_account_iteration_step(2)[OF a] create_account_iteration_step(3)[OF a] by simp
  qed
  show "browser_opens (snd (snd (create_storage_account fuel ns W subscription resource_group name s)))
     \<le> browser_opens (snd s) + 1"
    using 1 and_then_quiet[of is_browser_open ?post, OF adds_none_weaken[OF post prompt_kinds(1)]]
    by (simp add: create_storage_account_def browser_opens_def)
  show "pim_notices (snd (snd (create_storage_account fuel ns W subscription resource_group name s)))
     \<le> pim_notices (snd s) + 1"
    using 2 and_then_quiet[of is_pim_notice ?post, OF adds_none_weaken[OF post prompt_kinds(2)]]
    by (simp add: create_storage_account_def pim_notices_def)
qed

lemma app_registration_setup_prompts:
  "browser_opens (snd (snd (azure_app_registration_setup fuel ns W display_name url s)))
     \<le> browser_opens (snd s) + 1"
  "pim_notices (snd (snd (azure_app_registration_setup fuel ns W display_name url s)))
     \<le> pim_notices (snd s) + 1"
proof -
  let ?body = "app_setup_iteration ns W display_name"
  let ?post = "app_setup_result ns W url"
  have post: "adds_none is_prompt (?post a)" for a
    by (intro adds_none_app_setup_result) simp_all
  have 1: "browser_opens (snd (snd (while_true fuel ?body False s))) \<le> browser_opens (snd s) + (if False then 0 else 1)"
  proof (rule while_true_once[where c = "\<lambda>s. browser_opens (snd s)"])
    fix v s r s'
    assume a: "?body v s = (r, s')"
    show "browser_opens (snd s') \<le> browser_opens (snd s) + (if v then 0 else 1) \<and> (\<forall>v'. r = Inr (Inr v') \<longrightarrow> v')"
      using app_setup_iteration_step(1)[OF a] app_setup_iteration_step(3)[OF a] by simp
  qed
  have 2: "pim_notices (snd (snd (while_true fuel ?body False s))) \<le> pim_notices (snd s) + (if False then 0 else 1)"
  proof (rule while_true_once[where c = "\<lambda>s. pim_notices (snd s)"])
    fix v s r s'
    assume a: "?body v s = (r, s')"
    show "pim_notices (snd s') \<le> pim_notices (snd s) + (if v then 0 else 1) \<and> (\<forall>v'. r = Inr (Inr v') \<longrightarrow> v')"
      using app_setup_iteration_step(2)[OF a] app_setup_iteration_step(3)[OF a] by simp
  qed
  show "browser_opens (snd (snd (azure_app_registration_setup fuel ns W display_name url s)))
     \<le> browser_opens (snd s) + 1"
    using 1 and_then_quiet[of is_browser_open ?post, OF adds_none_weaken[OF post prompt_kinds(1)]]
    by (simp add: azure_app_registration_setup_def browser_opens_def)
  show "pim_notices (snd (snd (azure_app_registration_setup fuel ns W display_name url s)))
     \<le> pim_notices (snd s) + 1"
    using 2 and_then_quiet[of is_pim_notice ?post, OF adds_none_weaken[OF post prompt_kinds(2)]]
    by (simp add: azure_app_registration_setup_def pim_notices_def)
qed

text \<open>
  Two runs in which the loop goes round three times and the prompt is shown once: the
  app registration loop against a Graph service that denies the creation, and the
  storage account loop, refused for lack of privileges, in a namespace that binds the
  three names the module leaves unbound.
\<close>

lemma app_setup_prompt_example:
  "fst (azure_app_registration_setup 3 (module_namespace 5) denied_world ''app'' ''https://x/'' (0, [])) = None
   \<and> browser_opens (snd (snd (azure_app_registration_setup 3 (module_namespace 5) denied_world ''app'' ''https://x/'' (0, [])))) = 1
   \<and> pim_notices (snd (snd (azure_app_registration_setup 3 (module_namespace 5) denied_world ''app'' ''https://x/'' (0, [])))) = 1
   \<and> length (filter (\<lambda>ev. ev = Sleep 30) (snd (snd (azure_app_registration_setup 3 (module_namespace 5) denied_world ''app'' ''https://x/'' (0, []))))) = 3"
  by code_simp

lemma create_account_prompt_example:
  "fst (create_storage_account 3 (''_azure_cli'' # ''HttpResponseError'' # ''CloudError'' # module_namespace 5)
          unauthorized_world ''Sub'' ''rg'' ''acct'' (0, [])) = None
   \<and> browser_opens (snd (snd (create_storage_account 3 (''_azure_cli'' # ''HttpResponseError'' # ''CloudError'' # module_namespace 5)
          unauthorized_world ''Sub'' ''rg'' ''acct'' (0, [])))) = 1
   \<and> pim_notices (snd (snd (create_storage_account 3 (''_azure_cli'' # ''HttpResponseError'' # ''CloudError'' # module_namespace 5)
          unauthorized_world ''Sub'' ''rg'' ''acct'' (0, [])))) = 1
   \<and> length (filter (\<lambda>ev. ev = Sleep 60) (snd (snd (create_storage_account 3 (''_azure_cli'' # ''HttpResponseError'' # ''CloudError'' # module_namespace 5)
          unauthorized_world ''Sub'' ''rg'' ''acct'' (0, []))))) = 3"
  by code_simp

text \<open>
  Claim C7. In one run of \<^verbatim>\<open>create_storage_account\<close> and in one run of
  \<^verbatim>\<open>azure_app_registration_setup\<close>, whatever the namespace, the world and the number
  of iterations followed, the browser is opened at most once and the notice that goes
  with it is printed at most once.
\<close>

theorem remediation_prompt_at_most_once:
  "browser_opens (snd (snd (create_storage_account fuel ns W subscription resource_group name (w, [])))) \<le> 1
   \<and> pim_notices (snd (snd (create_storage_account fuel ns W subscription resource_group name (w, [])))) \<le> 1
   \<and> browser_opens (snd (snd (azure_app_registration_setup fuel ns W display_name proxy_redirect_url (w, [])))) \<le> 1
   \<and> pim_notices (snd (snd (azure_app_registration_setup fuel ns W display_name proxy_redirect_url (w, [])))) \<le> 1"
  using create_storage_account_prompts[of fuel ns W subscription resource_group name "(w, [])"]
    app_registration_setup_prompts[of fuel ns W display_name proxy_redirect_url "(w, [])"]
  by (simp add: browser_opens_def pim_notices_def)


section \<open>\<^verbatim>\<open>storage_account_exists\<close>\<close>

text \<open>
  Claim C10. When the guarded imports have bound the SDK classes, the subscription is
  found, the account name is not among the accounts of the given resource group but is
  among the accounts of the subscription, \<^verbatim>\<open>storage_account_exists\<close> raises
  \<^verbatim>\<open>NameError\<close> for \<^verbatim>\<open>account\<close>: after the two listings nothing more happens, no
  warning is emitted and \<^verbatim>\<open>True\<close> is not returned.
\<close>

theorem storage_account_exists_name_error:
  assumes "4 \<le> k"
    and "subscription_id (module_namespace k) W (JStr subscription) (w, tr) = (Inr sid, (w1, tr1))"
    and "ext_accounts_in_group W sid resource_group w1 = (Inr in_group, w2)"
    and "name \<notin> set in_group"
    and "ext_accounts W sid w2 = (Inr accounts, w3)"
    and "name \<in> set accounts"
  shows "storage_account_exists (module_namespace k) W name subscription resource_group (w, tr) =
         (Inl (NameError ''account''),
          (w3, tr1 @ [AccountsListByResourceGroup sid resource_group, AccountsList sid]))"
proof -
  have 1: "''StorageManagementClient'' \<in> set (module_namespace k)"
    and 2: "''AzureCliCredential'' \<in> set (module_namespace k)"
    using assms(1) by (simp_all add: bound_imports)
  show ?thesis
    unfolding storage_account_exists_def
    using 1 2 assms(2-6) unbound_names(7)[of k]
    by (simp add: bnd_def load_global_def credential_def ret_def raise_def ask_def)
qed

theorem storage_account_exists_name_error_witness:
  "storage_account_exists (module_namespace 5) other_group_world ''acct'' ''Sub'' ''rg'' (0, []) =
     (Inl (NameError ''account''),
      (3, [SubscriptionsList, AccountsListByResourceGroup ''sid-1'' ''rg'', AccountsList ''sid-1'']))
   \<and> ''acct'' \<notin> set (projr (fst (ext_accounts_in_group other_group_world ''sid-1'' ''rg'' 1)))
   \<and> ''acct'' \<in> set (projr (fst (ext_accounts other_group_world ''sid-1'' 2)))"
proof -
  have a: "subscription_id (module_namespace 5) other_group_world (JStr ''Sub'') (0, []) =
      (Inr ''sid-1'', (1, [] @ [SubscriptionsList]))"
    by code_simp
  have b: "ext_accounts_in_group other_group_world ''sid-1'' ''rg'' 1 = (Inr [], 2)"
    by (simp add: other_group_world_def sample_world_def)
  have c: "ext_accounts other_group_world ''sid-1'' 2 = (Inr [''acct''], 3)"
    by (simp add: other_group_world_def sample_world_def)
  from storage_account_exists_name_error[of 5, OF _ a b _ c] b c
  show ?thesis by simp
qed


section \<open>\<^verbatim>\<open>create_storage_account\<close>\<close>

lemma create_account_iteration_unbound:
  assumes "''_azure_cli'' \<notin> set ns" "''HttpResponseError'' \<notin> set ns"
  shows "create_account_iteration ns W args opened s = (Inl (NameError ''HttpResponseError''), s)"
  using assms
  by (simp add: create_account_iteration_def try_except_def azure_cli_def bnd_def
      load_global_def raise_def)

lemma create_account_iteration_no_handler:
  assumes "''_azure_cli'' \<in> set ns" "''HttpResponseError'' \<notin> set ns"
    and "ext_az_cli W args w = (Inl exc, w')"
  shows "create_account_iteration ns W args opened (w, tr) =
         (Inl (NameError ''HttpResponseError''), (w', tr @ [AzCli args]))"
  using assms
  by (simp add: create_account_iteration_def try_except_def azure_cli_def bnd_def
      load_global_def raise_def ret_def ask_def)

lemma create_storage_account_unbound:
  assumes "''_azure_cli'' \<notin> set ns" "''HttpResponseError'' \<notin> set ns"
    and "0 < fuel"
  shows "create_storage_account fuel ns W subscription resource_group name s =
         (Some (Inl (NameError ''HttpResponseError'')), s)"
proof -
  obtain n where "fuel = Suc n" using assms(3) by (cases fuel) auto
  then show ?thesis
    by (simp add: create_storage_account_def and_then_def
        create_account_iteration_unbound[OF assms(1,2)])
qed

lemma create_storage_account_no_handler:
  assumes "''_azure_cli'' \<in> set ns" "''HttpResponseError'' \<notin> set ns"
    and "ext_az_cli W (account_create_args subscription resource_group name) w = (Inl exc, w')"
    and "0 < fuel"
  shows "create_storage_account fuel ns W subscription resource_group name (w, tr) =
         (Some (Inl (NameError ''HttpResponseError'')),
          (w', tr @ [AzCli (account_create_args subscription resource_group name)]))"
proof -
  obtain n where "fuel = Suc n" using assms(4) by (cases fuel) auto
  then show ?thesis
    by (simp add: create_storage_account_def and_then_def
        create_account_iteration_no_handler[OF assms(1-3)])
qed

text \<open>
  Claim C3 (the code departs from it). The create call is refused with an
  \<^verbatim>\<open>AuthorizationFailed\<close> error. As the module is written the call is never made:
  \<^verbatim>\<open>_azure_cli\<close> is unbound, and so are the classes of the handler's clause. Were
  \<^verbatim>\<open>_azure_cli\<close> bound, the call is made once, and the handler's clause
  \<^verbatim>\<open>(HttpResponseError, CloudError)\<close> raises \<^verbatim>\<open>NameError\<close> before the error is looked
  at. Either way the browser is not opened, nothing sleeps and nothing is retried.
\<close>

theorem create_storage_account_authorization_failed:
  "create_storage_account 5 (module_namespace 5) unauthorized_world ''Sub'' ''rg'' ''acct'' (0, []) =
     (Some (Inl (NameError ''HttpResponseError'')), (0, []))
   \<and> create_storage_account 5 (''_azure_cli'' # module_namespace 5) unauthorized_world
       ''Sub'' ''rg'' ''acct'' (0, []) =
     (Some (Inl (NameError ''HttpResponseError'')),
      (1, [AzCli (account_create_args ''Sub'' ''rg'' ''acct'')]))"
proof -
  have az: "ext_az_cli unauthorized_world (account_create_args ''Sub'' ''rg'' ''acct'') 0 =
     (Inl (HttpResponseError ''(AuthorizationFailed) The client does not have authorization''), 1)"
    by (simp add: unauthorized_world_def sample_world_def)
  have nb: "''HttpResponseError'' \<notin> set (''_azure_cli'' # module_namespace 5)"
    using unbound_names(5)[of 5] by simp
  show ?thesis
    by (simp add: create_storage_account_unbound[OF unbound_names(4) unbound_names(5)]
        create_storage_account_no_handler[OF _ nb az])
qed


text \<open>
  Claim C4 (the code departs from it). Two calls in succession against a world in which
  every request would succeed: the second call raises, as the first one did.
\<close>

theorem create_storage_account_twice:
  "create_storage_account 5 (module_namespace 5) sample_world ''Sub'' ''rg'' ''acct'' (0, []) =
     (Some (Inl (NameError ''HttpResponseError'')), (0, []))
   \<and> create_storage_account 5 (module_namespace 5) sample_world ''Sub'' ''rg'' ''acct''
       (snd (create_storage_account 5 (module_namespace 5) sample_world ''Sub'' ''rg'' ''acct'' (0, []))) =
     (Some (Inl (NameError ''HttpResponseError'')), (0, []))"
proof -
  show ?thesis
    by (simp add: create_storage_account_unbound[OF unbound_names(4) unbound_names(5)])
qed


section \<open>Existence checks before creation\<close>

lemma while_true_quiet:
  assumes "\<And>v. adds_none P (body v)"
  shows "filter P (snd (snd (while_true n body v s))) = filter P (snd s)"
proof (induction n arbitrary: v s)
  case 0
  show ?case by simp
next
  case (Suc n)
  obtain r s' where b: "body v s = (r, s')" by (cases "body v s") auto
  note q = adds_noneD[OF assms b]
  show ?case
  proof (cases r)
    case (Inl e)
    with b q show ?thesis by simp
  next
    case (Inr x)
    with b q Suc.IH show ?thesis by (cases x) simp_all
  qed
qed

lemma adds_none_create_account_iteration:
  assumes "\<And>args. \<not> P (AzCli args)" "\<And>url. \<not> P (BrowserOpen url)"
    "\<And>m. \<not> P (Print m)" "\<And>k. \<not> P (Sleep k)"
  shows "adds_none P (create_account_iteration ns W args opened)"
  unfolding create_account_iteration_def
  by (intro adds_none_rules adds_none_azure_cli assms)

lemma adds_none_create_storage_container:
  assumes "\<not> P SubscriptionsList" "\<And>sid rg a. \<not> P (ListKeys sid rg a)"
    "\<And>conn c. \<not> P (CreateContainer conn c)"
  shows "adds_none P (create_storage_container ns W subscription resource_group storage_account container)"
  unfolding create_storage_container_def
  by (intro adds_none_rules adds_none_connection_string assms)

lemma create_storage_account_no_listing:
  "filter is_listing (snd (snd (create_storage_account fuel ns W subscription resource_group name s)))
   = filter is_listing (snd s)"
proof -
  have "filter is_listing (snd (snd (while_true fuel
          (create_account_iteration ns W (account_create_args subscription resource_group name))
          False s))) = filter is_listing (snd s)"
    by (rule while_true_quiet) (intro adds_none_create_account_iteration; simp)
  moreover have "adds_none is_listing (assign_upload_roles ns W subscription resource_group name)"
    by (intro adds_none_assign_upload_roles) simp
  ultimately show ?thesis
    by (simp add: create_storage_account_def and_then_quiet)
qed

lemma create_storage_container_no_listing:
  "filter is_listing (snd (snd (create_storage_container ns W subscription resource_group
      storage_account container s))) = filter is_listing (snd s)"
proof -
  have "adds_none is_listing (create_storage_container ns W subscription resource_group
          storage_account container)"
    by (intro adds_none_create_storage_container) simp_all
  then show ?thesis
    unfolding adds_none_def by metis
qed

subsection \<open>An app registration that exists is not created again\<close>

lemma existing_app_registration_found:
  assumes "''AzureCliCredential'' \<in> set ns"
    and "ext_get_token W GRAPH_BASE_URL g0 = (Inr token, g1)"
    and "ext_http W GET (GRAPH_BASE_URL @ ''/v1.0/applications?$filter=displayName eq ''
                           @ quoted display_name) token None g1 = (Inr found, g2)"
    and "getitem_key found ''value'' = Inr v" "truthy v" "getitem0 v = Inr first"
    and "getitem_key first ''appId'' = Inr app_id"
  shows "existing_app_registration ns W display_name (g0, tr) =
         (Inr app_id,
          (g2, tr @ [GetToken GRAPH_BASE_URL,
                     Http GET (GRAPH_BASE_URL @ ''/v1.0/applications?$filter=displayName eq ''
                                 @ quoted display_name) None]))"
proof -
  have "graph_request ns W GET
          (''applications?$filter=displayName eq '' @ quoted display_name) None (g0, tr) =
        (Inr found,
         (g2, tr @ [GetToken GRAPH_BASE_URL,
                    Http GET (GRAPH_BASE_URL @ ''/v1.0/applications?$filter=displayName eq ''
                                @ quoted display_name) None]))"
    using graph_request_run[OF assms(1,2), of GET
        "''applications?$filter=displayName eq '' @ quoted display_name" None "Inr found" g2 tr]
      assms(3)
    by simp
  with assms(4-7) show ?thesis
    by (simp add: existing_app_registration_def bnd_def lift_def)
qed

lemma create_app_registration_found:
  assumes "existing_app_registration ns W display_name s = (Inr app_id, s')"
    and "app_id \<noteq> JNull"
  shows "create_app_registration ns W display_name s = (Inr app_id, s')"
  using assms by (simp add: create_app_registration_def bnd_def ret_def)

subsection \<open>A container is created without looking\<close>

lemma create_storage_container_run:
  assumes "''BlobServiceClient'' \<in> set ns" "''StorageManagementClient'' \<in> set ns"
    "''AzureCliCredential'' \<in> set ns" "''SubscriptionClient'' \<in> set ns"
    and "ext_subscriptions W w0 = (Inr subs, w1)"
    and "find (\<lambda>s. JStr (fst s) = JStr subscription) subs = Some sub"
    and "ext_list_keys W (snd sub) (JStr resource_group) storage_account w1 = (Inr (k # ks), w2)"
    and "ext_create_container W (''DefaultEndpointsProtocol=https;AccountName='' @ storage_account
           @ '';AccountKey='' @ k) container w2 = (r, w3)"
  shows "create_storage_container ns W subscription resource_group storage_account container
           (w0, tr) =
         (r, (w3, tr @ [SubscriptionsList,
                        ListKeys (snd sub) (JStr resource_group) storage_account,
                        CreateContainer (''DefaultEndpointsProtocol=https;AccountName=''
                                           @ storage_account @ '';AccountKey='' @ k) container]))"
proof -
  have sub: "if JStr subscription = JNull then subs \<noteq> [] \<and> hd subs = sub
             else find (\<lambda>s. JStr (fst s) = JStr subscription) subs = Some sub"
    using assms(6) by simp
  note cs = connection_string_run[OF assms(2,3,4,5) sub assms(7), of tr]
  show ?thesis
    unfolding create_storage_container_def
    using assms(1,8)
    by (simp only: bnd_def cs load_global_def if_True ret_def prod.case sum.case ask_def
        fst_conv snd_conv append_assoc append.simps)
qed

subsection \<open>The first thing a storage account's creation does is to create\<close>

lemma extends_trace_azure_cli: "extends_trace (azure_cli ns W args)"
  unfolding azure_cli_def by (intro extends_trace_rules)

lemma extends_trace_create_account_handler:
  "extends_trace
     (bnd (load_global ns ''HttpResponseError'') (\<lambda>_.
      bnd (load_global ns ''CloudError'') (\<lambda>_.
        if isinstance_of exc ''HttpResponseError'' \<or> isinstance_of exc ''CloudError'' then
          if has_substring ''AuthorizationFailed'' (exn_msg exc) then
            bnd (if \<not> opened then
                   bnd (emit (BrowserOpen (PIMCOMMON_URL @ ''/azurerbac''))) (\<lambda>_.
                   emit (Print pim_notice_storage))
                 else ret ()) (\<lambda>_.
            bnd (emit (Print ''New attempt of app registration in 1 minute.'')) (\<lambda>_.
            bnd (emit (Sleep 60)) (\<lambda>_.
              ret (Inr True))))
          else
            raise (RuntimeError ''Not able to create new storage account.'' (Some exc))
        else raise exc)))"
  by (intro extends_trace_rules)

lemma extends_trace_create_account_iteration:
  "extends_trace (create_account_iteration ns W args opened)"
  unfolding create_account_iteration_def
  by (intro extends_trace_rules extends_trace_azure_cli)

lemma extends_trace_assign_upload_roles:
  "extends_trace (assign_upload_roles ns W subscription resource_group name)"
  unfolding assign_upload_roles_def
  by (intro extends_trace_rules extends_trace_azure_cli)

text \<open>With \<^verbatim>\<open>_azure_cli\<close> unbound an iteration raises at once and performs nothing.\<close>

lemma create_account_iteration_no_cli:
  assumes "''_azure_cli'' \<notin> set ns"
  shows "\<exists>e. create_account_iteration ns W args opened s = (Inl e, s)"
  using assms
  by (simp add: create_account_iteration_def try_except_def azure_cli_def bnd_def
      load_global_def raise_def ret_def NameError_def isinstance_of_def)

text \<open>With \<^verbatim>\<open>_azure_cli\<close> bound an iteration starts with the call it is given.\<close>

lemma create_account_iteration_first:
  assumes "''_azure_cli'' \<in> set ns"
  shows "prefix (tr @ [AzCli args])
           (snd (snd (create_account_iteration ns W args opened (w, tr))))"
proof -
  obtain r w' where az: "ext_az_cli W args w = (r, w')" by (cases "ext_az_cli W args w")
  show ?thesis
  proof (cases r)
    case (Inr a)
    with az assms show ?thesis
      by (simp add: create_account_iteration_def try_except_def azure_cli_def bnd_def
          load_global_def ret_def ask_def)
  next
    case (Inl exc)
    let ?h = "bnd (load_global ns ''HttpResponseError'') (\<lambda>_.
      bnd (load_global ns ''CloudError'') (\<lambda>_.
        if isinstance_of exc ''HttpResponseError'' \<or> isinstance_of exc ''CloudError'' then
          if has_substring ''AuthorizationFailed'' (exn_msg exc) then
            bnd (if \<not> opened then
                   bnd (emit (BrowserOpen (PIMCOMMON_URL @ ''/azurerbac''))) (\<lambda>_.
                   emit (Print pim_notice_storage))
                 else ret ()) (\<lambda>_.
            bnd (emit (Print ''New attempt of app registration in 1 minute.'')) (\<lambda>_.
            bnd (emit (Sleep 60)) (\<lambda>_.
              ret (Inr True))))
          else
            raise (RuntimeError ''Not able to create new storage account.'' (Some exc))
        else raise exc))"
    have "create_account_iteration ns W args opened (w, tr) = ?h (w', tr @ [AzCli args])"
      using az Inl assms
      by (simp add: create_account_iteration_def try_except_def azure_cli_def bnd_def
          load_global_def ret_def ask_def)
    moreover have "prefix (snd (w', tr @ [AzCli args])) (snd (snd (?h (w', tr @ [AzCli args]))))"
      using extends_trace_create_account_handler[of ns exc opened]
      unfolding extends_trace_def by blast
    ultimately show ?thesis by simp
  qed
qed

lemma create_storage_account_first:
  "if 0 < fuel \<and> ''_azure_cli'' \<in> set ns
   then prefix [AzCli (account_create_args subscription resource_group name)]
          (snd (snd (create_storage_account fuel ns W subscription resource_group name (w, []))))
   else snd (snd (create_storage_account fuel ns W subscription resource_group name (w, []))) = []"
proof (cases fuel)
  case 0
  then show ?thesis by (simp add: create_storage_account_def and_then_def)
next
  case (Suc n)
  let ?args = "account_create_args subscription resource_group name"
  let ?body = "create_account_iteration ns W ?args"
  show ?thesis
  proof (cases "''_azure_cli'' \<in> set ns")
    case False
    from create_account_iteration_no_cli[OF False, of W ?args False "(w, [])"]
    obtain e where "?body False (w, []) = (Inl e, (w, []))" by blast
    with Suc False show ?thesis
      by (simp add: create_storage_account_def and_then_def)
  next
    case True
    obtain r s1 where it: "?body False (w, []) = (r, s1)" by (cases "?body False (w, [])")
    from create_account_iteration_first[OF True, of "[]" ?args W False w] it
    have p1: "prefix [AzCli ?args] (snd s1)" by simp
    have "prefix (snd s1) (snd (snd (while_true (Suc n) ?body False (w, []))))"
    proof (cases r)
      case (Inl e)
      with it show ?thesis by simp
    next
      case (Inr x)
      show ?thesis
      proof (cases x)
        case (Inl a)
        with it Inr show ?thesis by simp
      next
        case (Inr v')
        have "prefix (snd s1) (snd (snd (while_true n ?body v' s1)))"
          by (rule while_true_extends) (rule extends_trace_create_account_iteration)
        with it \<open>r = Inr x\<close> Inr show ?thesis by simp
      qed
    qed
    with p1 have p2: "prefix [AzCli ?args] (snd (snd (while_true (Suc n) ?body False (w, []))))"
      by (rule prefix_order.order_trans)
    have "prefix (snd (snd (while_true (Suc n) ?body False (w, []))))
            (snd (snd (and_then (while_true (Suc n) ?body False (w, []))
               (\<lambda>_. assign_upload_roles ns W subscription resource_group name))))"
      by (rule and_then_extends) (rule extends_trace_assign_upload_roles)
    with p2 have "prefix [AzCli ?args]
            (snd (snd (and_then (while_true (Suc n) ?body False (w, []))
               (\<lambda>_. assign_upload_roles ns W subscription resource_group name))))"
      by (rule prefix_order.order_trans)
    with Suc True show ?thesis
      by (simp add: create_storage_account_def)
  qed
qed

text \<open>
  Claim C1, as amended. Take a world in which the SDK classes are bound, the Graph
  service answers the lookup of the display name with a non-empty list whose first
  entry has an \<^verbatim>\<open>appId\<close> other than \<^verbatim>\<open>None\<close>, the subscription is listed and the
  storage account has a key.

  \<^item> \<^verbatim>\<open>create_app_registration\<close> returns that \<^verbatim>\<open>appId\<close>, and all it has sent is the token
    request and the lookup: no create request.
  \<^item> \<^verbatim>\<open>create_storage_container\<close> makes no existence check: once the subscription and
    the account key are obtained, its next and last request is the create request,
    whose outcome is the outcome of the call, whatever containers exist.
  \<^item> \<^verbatim>\<open>create_storage_account\<close> makes no existence check either: when \<^verbatim>\<open>_azure_cli\<close> is
    bound and the loop is entered, the first effect is the call that creates the
    account; otherwise the function has no effect at all.
\<close>

theorem create_operations_existence_checks:
  assumes "''AzureCliCredential'' \<in> set ns" "''SubscriptionClient'' \<in> set ns"
    "''StorageManagementClient'' \<in> set ns" "''BlobServiceClient'' \<in> set ns"
    and "ext_get_token W GRAPH_BASE_URL g0 = (Inr token, g1)"
    and "ext_http W GET (GRAPH_BASE_URL @ ''/v1.0/applications?$filter=displayName eq ''
                           @ quoted display_name) token None g1 = (Inr found, g2)"
    and "getitem_key found ''value'' = Inr v" "truthy v" "getitem0 v = Inr first"
    and "getitem_key first ''appId'' = Inr app_id" "app_id \<noteq> JNull"
    and "ext_subscriptions W w0 = (Inr subs, w1)"
    and "find (\<lambda>s. JStr (fst s) = JStr subscription) subs = Some sub"
    and "ext_list_keys W (snd sub) (JStr resource_group) storage_account w1 = (Inr (k # ks), w2)"
    and "ext_create_container W (''DefaultEndpointsProtocol=https;AccountName='' @ storage_account
           @ '';AccountKey='' @ k) container w2 = (created, w3)"
  shows "create_app_registration ns W display_name (g0, tr) =
           (Inr app_id,
            (g2, tr @ [GetToken GRAPH_BASE_URL,
                       Http GET (GRAPH_BASE_URL @ ''/v1.0/applications?$filter=displayName eq ''
                                   @ quoted display_name) None]))
       \<and> create_storage_container ns W subscription resource_group storage_account container
           (w0, tr) =
           (created,
            (w3, tr @ [SubscriptionsList,
                       ListKeys (snd sub) (JStr resource_group) storage_account,
                       CreateContainer (''DefaultEndpointsProtocol=https;AccountName=''
                                          @ storage_account @ '';AccountKey='' @ k) container]))
       \<and> (if 0 < fuel \<and> ''_azure_cli'' \<in> set ns
          then prefix [AzCli (account_create_args subscription resource_group name)]
                 (snd (snd (create_storage_account fuel ns W subscription resource_group name
                              (w0, []))))
          else snd (snd (create_storage_account fuel ns W subscription resource_group name
                           (w0, []))) = [])"
proof -
  have 1: "create_app_registration ns W display_name (g0, tr) =
           (Inr app_id,
            (g2, tr @ [GetToken GRAPH_BASE_URL,
                       Http GET (GRAPH_BASE_URL @ ''/v1.0/applications?$filter=displayName eq ''
                                   @ quoted display_name) None]))"
    by (rule create_app_registration_found[OF existing_app_registration_found[OF assms(1,5-10)]
          assms(11)])
  note 2 = create_storage_container_run[OF assms(4,3,1,2) assms(12-15), of tr]
  note 3 = create_storage_account_first[of fuel ns subscription resource_group name W w0]
  from 1 2 3 show ?thesis by (simp only: simp_thms)
qed

theorem create_operations_existence_checks_witness:
  "create_app_registration (''_azure_cli'' # module_namespace 5) existing_container_world ''app''
     (0, []) =
     (Inr (JStr ''app-1''),
      (2, [] @ [GetToken GRAPH_BASE_URL,
                Http GET (GRAPH_BASE_URL @ ''/v1.0/applications?$filter=displayName eq ''
                            @ quoted ''app'') None]))
   \<and> create_storage_container (''_azure_cli'' # module_namespace 5) existing_container_world
       ''Sub'' ''rg'' ''acct'' ''c'' (0, []) =
     (Inl (Exn [''ResourceExistsError'', ''HttpResponseError'', ''AzureError'', ''Exception'',
                ''BaseException''] ''The specified container already exists.'' None),
      (3, [] @ [SubscriptionsList, ListKeys (snd (''Sub'', ''sid-1'')) (JStr ''rg'') ''acct'',
                CreateContainer (''DefaultEndpointsProtocol=https;AccountName='' @ ''acct''
                                   @ '';AccountKey='' @ ''key-1'') ''c'']))
   \<and> prefix [AzCli (account_create_args ''Sub'' ''rg'' ''acct'')]
       (snd (snd (create_storage_account 3 (''_azure_cli'' # module_namespace 5)
                    existing_container_world ''Sub'' ''rg'' ''acct'' (0, []))))"
proof -
  have names: "''AzureCliCredential'' \<in> set (''_azure_cli'' # module_namespace 5)"
    "''SubscriptionClient'' \<in> set (''_azure_cli'' # module_namespace 5)"
    "''StorageManagementClient'' \<in> set (''_azure_cli'' # module_namespace 5)"
    "''BlobServiceClient'' \<in> set (''_azure_cli'' # module_namespace 5)"
    by (simp_all add: bound_imports)
  have token: "ext_get_token existing_container_world GRAPH_BASE_URL 0 = (Inr ''token'', 1)"
    by (simp add: existing_container_world_def sample_world_def)
  have found: "ext_http existing_container_world GET
      (GRAPH_BASE_URL @ ''/v1.0/applications?$filter=displayName eq '' @ quoted ''app'')
      ''token'' None 1 = (Inr (JObj [(''value'', JArr [sample_app])]), 2)"
    by code_simp
  have v: "getitem_key (JObj [(''value'', JArr [sample_app])]) ''value'' = Inr (JArr [sample_app])"
    by code_simp
  have nonempty: "truthy (JArr [sample_app])"
    by code_simp
  have first: "getitem0 (JArr [sample_app]) = Inr sample_app"
    by code_simp
  have app_id: "getitem_key sample_app ''appId'' = Inr (JStr ''app-1'')"
    by code_simp
  have not_none: "JStr ''app-1'' \<noteq> JNull"
    by simp
  have subs: "ext_subscriptions existing_container_world 0 = (Inr [(''Sub'', ''sid-1'')], 1)"
    by (simp add: existing_container_world_def sample_world_def)
  have sub: "find (\<lambda>s. JStr (fst s) = JStr ''Sub'') [(''Sub'', ''sid-1'')] = Some (''Sub'', ''sid-1'')"
    by simp
  have keys: "ext_list_keys existing_container_world (snd (''Sub'', ''sid-1'')) (JStr ''rg'')
      ''acct'' 1 = (Inr (''key-1'' # []), 2)"
    by (simp add: existing_container_world_def sample_world_def)
  have created: "ext_create_container existing_container_world
      (''DefaultEndpointsProtocol=https;AccountName='' @ ''acct'' @ '';AccountKey='' @ ''key-1'')
      ''c'' 2 =
      (Inl (Exn [''ResourceExistsError'', ''HttpResponseError'', ''AzureError'', ''Exception'',
                 ''BaseException''] ''The specified container already exists.'' None), 3)"
    by (simp add: existing_container_world_def sample_world_def numeral_3_eq_3 numeral_2_eq_2)
  have cli: "0 < (3 :: nat) \<and> ''_azure_cli'' \<in> set (''_azure_cli'' # module_namespace 5)"
    by simp
  from create_operations_existence_checks[OF names token found v nonempty first app_id not_none
      subs sub keys created, of "[]" 3 "''acct''"] cli
  show ?thesis by (simp only: if_True simp_thms)
qed


text \<open>
  Claim C1 as stated fails for containers: where the module's own existence check
  answers that the container exists, \<^verbatim>\<open>create_storage_container\<close> sends the create
  request all the same (and Azure refuses it).
\<close>

theorem create_storage_container_issues_create_when_exists:
  "storage_container_exists (module_namespace 5) existing_container_world ''c'' ''acct'' ''Sub'' ''rg''
     (0, []) =
     (Inr True, (2, [SubscriptionsList, BlobContainersList ''sid-1'' ''rg'' ''acct'']))
   \<and> create_storage_container (module_namespace 5) existing_container_world ''Sub'' ''rg'' ''acct''
       ''c'' (0, []) =
     (Inl (Exn [''ResourceExistsError'', ''HttpResponseError'', ''AzureError'', ''Exception'',
                ''BaseException''] ''The specified container already exists.'' None),
      (3, [SubscriptionsList, ListKeys ''sid-1'' (JStr ''rg'') ''acct'',
           CreateContainer ''DefaultEndpointsProtocol=https;AccountName=acct;AccountKey=key-1''
             ''c'']))"
  by code_simp


section \<open>\<^verbatim>\<open>add_reply_url\<close>\<close>

lemma map_of_set_key: "map_of (set_key k v kvs) k = Some v"
  by (induction kvs) auto

lemma redirect_uris_with_key:
  assumes "redirect_uris web = Inr old"
  shows "redirect_uris (with_key web ''redirectUris'' v) = Inr v"
  using assms by (cases web) (simp_all add: redirect_uris_def map_of_set_key)

lemma distinct_count_list: "distinct xs \<Longrightarrow> x \<in> set xs \<Longrightarrow> count_list xs x = 1"
  by (induction xs) auto

lemma add_reply_url_store:
  assumes "''AzureCliCredential'' \<in> set ns" "redirect_uris web = Inr (JArr uris)"
  shows "\<exists>tr'. add_reply_url ns (graph_store app_id oid) (JStr app_id) reply_url (web, tr) =
    (Inr (), (if JStr reply_url \<in> set uris then web
              else with_key web ''redirectUris'' (JArr (uris @ [JStr reply_url])), tr'))"
  using assms
  by (simp add: add_reply_url_def object_id_from_app_id_def graph_request_def graph_headers_def
      credential_def load_global_def bnd_def ret_def ask_def lift_def graph_store_def
      format_value_def stored_app_def redirect_uris_def GRAPH_BASE_URL_def quoted_def)

text \<open>
  Claim C6. Against a Graph service that stores what it is sent, for any application
  whose \<^verbatim>\<open>web\<close> property holds a list of distinct redirect URIs and for any URL: two
  calls of \<^verbatim>\<open>add_reply_url\<close> with that URL both return, the second leaves the store
  as the first left it, and the stored list then holds the URL exactly once, next to
  the URIs it held before.
\<close>

theorem add_reply_url_idempotent:
  assumes "''AzureCliCredential'' \<in> set ns"
    and "redirect_uris web = Inr (JArr uris)"
    and "distinct uris"
  shows "\<exists>web' tr' uris'.
           add_reply_url_twice ns (graph_store app_id oid) (JStr app_id) reply_url (web, tr) =
             (Inr (), (web', tr'))
         \<and> fst (snd (add_reply_url ns (graph_store app_id oid) (JStr app_id) reply_url (web, tr))) = web'
         \<and> redirect_uris web' = Inr (JArr uris')
         \<and> count_list uris' (JStr reply_url) = 1
         \<and> set uris' = insert (JStr reply_url) (set uris)"
proof -
  let ?W = "graph_store app_id oid"
  let ?uris1 = "if JStr reply_url \<in> set uris then uris else uris @ [JStr reply_url]"
  let ?web1 = "if JStr reply_url \<in> set uris then web
               else with_key web ''redirectUris'' (JArr (uris @ [JStr reply_url]))"
  from add_reply_url_store[OF assms(1,2)] obtain tr1 where
    1: "add_reply_url ns ?W (JStr app_id) reply_url (web, tr) = (Inr (), (?web1, tr1))"
    by blast
  have u1: "redirect_uris ?web1 = Inr (JArr ?uris1)"
    using assms(2) redirect_uris_with_key[OF assms(2)] by simp
  have in1: "JStr reply_url \<in> set ?uris1" by simp
  from add_reply_url_store[OF assms(1) u1, of app_id oid reply_url tr1] in1 obtain tr2 where
    2: "add_reply_url ns ?W (JStr app_id) reply_url (?web1, tr1) = (Inr (), (?web1, tr2))"
    by auto
  have twice: "add_reply_url_twice ns ?W (JStr app_id) reply_url (web, tr) = (Inr (), (?web1, tr2))"
    using 1 2 by (simp add: add_reply_url_twice_def bnd_def)
  have cnt: "count_list ?uris1 (JStr reply_url) = 1"
    using assms(3) by (simp add: distinct_count_list)
  have st: "set ?uris1 = insert (JStr reply_url) (set uris)" by auto
  from twice 1 u1 cnt st show ?thesis
    by (intro exI[of _ ?web1] exI[of _ tr2] exI[of _ ?uris1]) simp
qed


theorem add_reply_url_idempotent_witness:
  "''AzureCliCredential'' \<in> set (module_namespace 5)
   \<and> redirect_uris sample_web = Inr (JArr [JStr ''https://a.example/cb''])
   \<and> distinct [JStr ''https://a.example/cb'']
   \<and> (\<exists>web' tr' uris'.
           add_reply_url_twice (module_namespace 5) (graph_store ''app-1'' ''oid-1'') (JStr ''app-1'')
             ''https://b.example/cb'' (sample_web, []) = (Inr (), (web', tr'))
         \<and> fst (snd (add_reply_url (module_namespace 5) (graph_store ''app-1'' ''oid-1'')
               (JStr ''app-1'') ''https://b.example/cb'' (sample_web, []))) = web'
         \<and> redirect_uris web' = Inr (JArr uris')
         \<and> count_list uris' (JStr ''https://b.example/cb'') = 1
         \<and> set uris' = insert (JStr ''https://b.example/cb'') (set [JStr ''https://a.example/cb'']))
   \<and> fst (snd (add_reply_url_twice (module_namespace 5) (graph_store ''app-1'' ''oid-1'')
         (JStr ''app-1'') ''https://b.example/cb'' (sample_web, []))) =
       JObj [(''homePageUrl'', JNull),
             (''redirectUris'', JArr [JStr ''https://a.example/cb'', JStr ''https://b.example/cb''])]"
proof -
  have a: "''AzureCliCredential'' \<in> set (module_namespace 5)"
    by (simp add: bound_imports)
  have b: "redirect_uris sample_web = Inr (JArr [JStr ''https://a.example/cb''])"
    by (simp add: redirect_uris_def sample_web_def)
  have c: "distinct [JStr ''https://a.example/cb'']"
    by simp
  have d: "fst (snd (add_reply_url_twice (module_namespace 5) (graph_store ''app-1'' ''oid-1'')
         (JStr ''app-1'') ''https://b.example/cb'' (sample_web, []))) =
       JObj [(''homePageUrl'', JNull),
             (''redirectUris'', JArr [JStr ''https://a.example/cb'', JStr ''https://b.example/cb''])]"
    by code_simp
  from add_reply_url_idempotent[OF a b c, of "''app-1''" "''oid-1''" "''https://b.example/cb''" "[]"]
    a b c d
  show ?thesis by simp
qed


section \<open>\<^verbatim>\<open>create_secret\<close>\<close>

text \<open>
  The literal \<^verbatim>\<open>365.242\<close>: the double taken for it has 53 significant bits and lies
  within half a unit of its last place of 365242/1000.
\<close>

lemma float_365_242_nearest:
  "bit_length (fst float_365_242) = 53"
  "snd float_365_242 = - 44"
  "2 * \<bar>1000 * fst float_365_242 - 365242 * 2 ^ 44\<bar> \<le> (1000 :: int)"
  by code_simp+

text \<open>
  \<^verbatim>\<open>365.242 * 100\<close> is not 36524.2 (no double is), but \<^verbatim>\<open>timedelta\<close> works in whole
  microseconds, and the rounding to a microsecond gives 36524.2 days exactly.
\<close>

lemma float_product_100:
  "float_mul float_365_242 (float_of_int 100) = (5019847824402023, - 37)"
  by code_simp



lemma timedelta_other_years:
  "timedelta_days (float_mul float_365_242 (float_of_int 1)) = Inr 31556908800000"
  "timedelta_days (float_mul float_365_242 (float_of_int 7)) = Inr 220898361600000"
  "timedelta_days (float_mul float_365_242 (float_of_int (- 3))) = Inr (- 94670726400000)"
  "timedelta_days (float_mul float_365_242 (float_of_int 99999)) = Inr 3155659323091200113"
  "timedelta_days (float_mul float_365_242 (float_of_int 3000000)) =
     Inl (OverflowError ''timedelta # of days is too large'')"
  by code_simp+

lemma isoformat_examples:
  "isoformat 0 = ''0001-01-01T00:00:00''"
  "isoformat (3652059 * us_per_day - 1) = ''9999-12-31T23:59:59.999999''"
  "isoformat 63929381415250000 = ''2026-11-04T09:30:15.250000''"
  "isoformat (63929381415250000 + 3155690880000000) = ''2126-11-04T14:18:15.250000''"
  by code_simp+




text \<open>
  The string returned is the service's: where the service answers with an empty
  \<^verbatim>\<open>secretText\<close>, so does \<^verbatim>\<open>create_secret\<close>. And where the optional import of
  \<^verbatim>\<open>AzureCliCredential\<close> has failed, the function raises \<^verbatim>\<open>NameError\<close> before any request.
\<close>

lemma create_secret_empty_answer:
  "fst (create_secret (module_namespace 5) empty_secret_world (JStr ''app-1'') ''cli secret'' 100
          (0, [])) = Inr (JStr [])"
  by code_simp

lemma create_secret_without_credential:
  "create_secret (module_namespace 0) sample_world (JStr ''app-1'') ''cli secret'' 100 (0, []) =
     (Inl (NameError ''AzureCliCredential''), (0, []))"
  by code_simp

end
